theory Spec2Isabelle
  imports Complex_Main
begin

section \<open>JavaScript numbers and values\<close>

text \<open>
  A JavaScript Number is an IEEE-754 binary64 value. It is modelled as \<open>NaN\<close>, one of the
  two infinities, or \<open>Fin x\<close> for a finite double of real value \<open>x\<close>. Every arithmetic
  operation on finite operands computes the exact real result and rounds it with
  \<open>round64\<close>: to the nearest double, ties to the even significand, and to an infinity
  when the rounded magnitude reaches \<open>2^1024\<close>. A numeric literal and a number of a JSON
  text denote the double nearest to their decimal value, again by \<open>round64\<close>.
  The sign of zero is not modelled (there is one zero): a finite number divided by zero
  yields the infinity of the dividend's sign, and \<open>0 / 0\<close> yields \<open>NaN\<close>.
\<close>

datatype jsnum = NaN | PInf | NInf | Fin real

subsection \<open>Rounding to the nearest double\<close>

text \<open>The nearest integer, a tie going to the even one.\<close>

definition round_half_even :: "real \<Rightarrow> int" where
  "round_half_even t =
     (let f = \<lfloor>t\<rfloor>; d = t - of_int f
      in if d < 1 / 2 then f else if 1 / 2 < d then f + 1 else if even f then f else f + 1)"

text \<open>
  \<open>find_exp k e x\<close> climbs from the exponent \<open>e\<close>, at most \<open>k\<close> times, while the next power
  of two is at most \<open>x\<close>. \<open>binade x\<close> is the exponent of the binade of \<open>x\<close>: the largest
  \<open>e\<close> with \<open>2^e \<le> |x|\<close>, kept between \<open>-1022\<close> (the subnormal range shares the spacing of
  the smallest normal binade) and \<open>1024\<close> (beyond the largest double).
\<close>

fun find_exp :: "nat \<Rightarrow> int \<Rightarrow> real \<Rightarrow> int" where
  "find_exp 0 e x = e"
| "find_exp (Suc k) e x = (if 2 powi (e + 1) \<le> x then find_exp k (e + 1) x else e)"

definition binade :: "real \<Rightarrow> int" where
  "binade x = find_exp 2046 (- 1022) \<bar>x\<bar>"

text \<open>
  The multiple of the spacing \<open>2^(binade x - 52)\<close> nearest to \<open>x\<close> (a double has 53
  significant bits), and the double or infinity it stands for.
\<close>

definition nearest :: "real \<Rightarrow> real" where
  "nearest x =
     (let q = 2 powi (binade x - 52) in of_int (round_half_even (x / q)) * q)"

definition round64 :: "real \<Rightarrow> jsnum" where
  "round64 x =
     (if 2 powi 1024 \<le> \<bar>nearest x\<bar> then (if 0 < x then PInf else NInf)
      else Fin (nearest x))"

subsection \<open>The operators\<close>

text \<open>The infinity with the sign of \<open>r\<close>; \<open>NaN\<close> for \<open>r = 0\<close> (\<open>Infinity * 0\<close>, \<open>0 / 0\<close>).\<close>

definition signed_inf :: "real \<Rightarrow> jsnum" where
  "signed_inf r = (if r = 0 then NaN else if 0 < r then PInf else NInf)"

fun js_neg :: "jsnum \<Rightarrow> jsnum" where
  "js_neg NaN = NaN"
| "js_neg PInf = NInf"
| "js_neg NInf = PInf"
| "js_neg (Fin a) = Fin (- a)"

fun js_div :: "jsnum \<Rightarrow> jsnum \<Rightarrow> jsnum" where
  "js_div NaN y = NaN"
| "js_div x NaN = NaN"
| "js_div (Fin a) (Fin b) = (if b = 0 then signed_inf a else round64 (a / b))"
| "js_div (Fin a) y = Fin 0"
| "js_div PInf (Fin b) = (if b < 0 then NInf else PInf)"
| "js_div NInf (Fin b) = (if b < 0 then PInf else NInf)"
| "js_div x y = NaN"

instantiation jsnum :: "{plus, minus, times, inverse, ord}"
begin

fun plus_jsnum :: "jsnum \<Rightarrow> jsnum \<Rightarrow> jsnum" where
  "plus_jsnum NaN y = NaN"
| "plus_jsnum x NaN = NaN"
| "plus_jsnum (Fin a) (Fin b) = round64 (a + b)"
| "plus_jsnum PInf NInf = NaN"
| "plus_jsnum NInf PInf = NaN"
| "plus_jsnum PInf y = PInf"
| "plus_jsnum NInf y = NInf"
| "plus_jsnum (Fin a) y = y"

definition minus_jsnum :: "jsnum \<Rightarrow> jsnum \<Rightarrow> jsnum" where
  "minus_jsnum x y = x + js_neg y"

fun times_jsnum :: "jsnum \<Rightarrow> jsnum \<Rightarrow> jsnum" where
  "times_jsnum NaN y = NaN"
| "times_jsnum x NaN = NaN"
| "times_jsnum (Fin a) (Fin b) = round64 (a * b)"
| "times_jsnum (Fin a) PInf = signed_inf a"
| "times_jsnum (Fin a) NInf = signed_inf (- a)"
| "times_jsnum PInf (Fin b) = signed_inf b"
| "times_jsnum NInf (Fin b) = signed_inf (- b)"
| "times_jsnum PInf PInf = PInf"
| "times_jsnum PInf NInf = NInf"
| "times_jsnum NInf PInf = NInf"
| "times_jsnum NInf NInf = PInf"

definition divide_jsnum :: "jsnum \<Rightarrow> jsnum \<Rightarrow> jsnum" where
  "divide_jsnum x y = js_div x y"

definition inverse_jsnum :: "jsnum \<Rightarrow> jsnum" where
  "inverse_jsnum x = js_div (Fin 1) x"

text \<open>The relational operators: every comparison with \<open>NaN\<close> is false.\<close>

fun less_jsnum :: "jsnum \<Rightarrow> jsnum \<Rightarrow> bool" where
  "less_jsnum NaN y = False"
| "less_jsnum x NaN = False"
| "less_jsnum (Fin a) (Fin b) = (a < b)"
| "less_jsnum PInf y = False"
| "less_jsnum x PInf = True"
| "less_jsnum NInf NInf = False"
| "less_jsnum NInf (Fin b) = True"
| "less_jsnum (Fin a) NInf = False"

definition less_eq_jsnum :: "jsnum \<Rightarrow> jsnum \<Rightarrow> bool" where
  "less_eq_jsnum x y = (x \<noteq> NaN \<and> y \<noteq> NaN \<and> \<not> y < x)"

instance ..

end

text \<open>\<open>Math.min\<close> and \<open>Math.max\<close> of two arguments: \<open>NaN\<close> if either is.\<close>

definition Math_min :: "jsnum \<Rightarrow> jsnum \<Rightarrow> jsnum" where
  "Math_min x y = (if x = NaN \<or> y = NaN then NaN else if y < x then y else x)"

definition Math_max :: "jsnum \<Rightarrow> jsnum \<Rightarrow> jsnum" where
  "Math_max x y = (if x = NaN \<or> y = NaN then NaN else if x < y then y else x)"

text \<open>
  A numeric field of a request body is absent (\<open>undefined\<close>) or a number, the type the
  schema declares for it; JSON values of other types are outside this model. The
  arithmetic and relational operators apply \<open>ToNumber\<close> to such an operand, and \<open>!\<close>
  applies \<open>ToBoolean\<close>.
\<close>

datatype jsval = Undefined | Number jsnum

fun ToNumber :: "jsval \<Rightarrow> jsnum" where
  "ToNumber Undefined = NaN"
| "ToNumber (Number n) = n"

fun ToBoolean :: "jsval \<Rightarrow> bool" where
  "ToBoolean Undefined = False"
| "ToBoolean (Number NaN) = False"
| "ToBoolean (Number (Fin a)) = (a \<noteq> 0)"
| "ToBoolean (Number n) = True"

text \<open>A string field is absent (\<open>None\<close>) or a string; the empty string is falsy.\<close>

fun ToBoolean_str :: "string option \<Rightarrow> bool" where
  "ToBoolean_str None = False"
| "ToBoolean_str (Some s) = (s \<noteq> [])"

section \<open>The ROI estimator of roiCalculator.js\<close>

record ROIInput =
  numEmployees :: jsval
  avgAnnualSalary :: jsval
  annualRevenue :: jsval
  employeesWhoLeft :: jsval
  avgExtraAbsenteeismDaysPerEmployee :: jsval
  engagementScore :: jsval

record ROIResult =
  totalTurnoverCost :: jsnum
  totalDisengagementCost :: jsnum
  totalAbsenteeismCost :: jsnum
  totalHiddenLoss :: jsnum
  potentialSavingsMin :: jsnum
  potentialSavingsMax :: jsnum
  potentialRevenueIncreaseMin :: jsnum
  potentialRevenueIncreaseMax :: jsnum

subsection \<open>Configuration constants\<close>

text \<open>
  The literals 1.25 and 250 (like 0, 1, 2 and 10 below) are doubles; 0.34, 0.02 and 0.05
  are not, and denote the nearest double.
\<close>

definition DISENGAGEMENT_PRODUCTIVITY_LOSS_FACTOR :: jsnum where
  "DISENGAGEMENT_PRODUCTIVITY_LOSS_FACTOR = round64 0.34"

definition AVG_REPLACEMENT_COST_FACTOR :: jsnum where
  "AVG_REPLACEMENT_COST_FACTOR = Fin 1.25"

definition WORKING_DAYS_PER_YEAR :: jsnum where
  "WORKING_DAYS_PER_YEAR = Fin 250"

definition REVENUE_INCREASE_FACTOR_MIN :: jsnum where
  "REVENUE_INCREASE_FACTOR_MIN = round64 0.02"

definition REVENUE_INCREASE_FACTOR_MAX :: jsnum where
  "REVENUE_INCREASE_FACTOR_MAX = round64 0.05"

subsection \<open>The local constants of calculateROI, each as a function of \<open>data\<close>\<close>

text \<open>
  One definition per \<open>const\<close> of the function body, in the source's order and with the
  source's expression. A local constant whose name is also a key of the returned object
  carries the suffix \<open>_val\<close>; the record field of that name is the key.
\<close>

definition costPerReplacement :: "ROIInput \<Rightarrow> jsnum" where
  "costPerReplacement data = ToNumber (avgAnnualSalary data) * AVG_REPLACEMENT_COST_FACTOR"

definition totalTurnoverCost_val :: "ROIInput \<Rightarrow> jsnum" where
  "totalTurnoverCost_val data = ToNumber (employeesWhoLeft data) * costPerReplacement data"

definition disengagementInfluenceFactor :: "ROIInput \<Rightarrow> jsnum" where
  "disengagementInfluenceFactor data = (Fin 10 - ToNumber (engagementScore data)) / Fin 10"

definition avgDailySalary :: "ROIInput \<Rightarrow> jsnum" where
  "avgDailySalary data = ToNumber (avgAnnualSalary data) / WORKING_DAYS_PER_YEAR"

definition productivityLossCost :: "ROIInput \<Rightarrow> jsnum" where
  "productivityLossCost data =
     ToNumber (numEmployees data) * ToNumber (avgAnnualSalary data)
       * disengagementInfluenceFactor data * DISENGAGEMENT_PRODUCTIVITY_LOSS_FACTOR"

definition absenteeismCost :: "ROIInput \<Rightarrow> jsnum" where
  "absenteeismCost data =
     ToNumber (numEmployees data) * ToNumber (avgExtraAbsenteeismDaysPerEmployee data)
       * avgDailySalary data * disengagementInfluenceFactor data"

definition totalDisengagementCost_val :: "ROIInput \<Rightarrow> jsnum" where
  "totalDisengagementCost_val data = productivityLossCost data + absenteeismCost data"

definition totalHiddenLoss_val :: "ROIInput \<Rightarrow> jsnum" where
  "totalHiddenLoss_val data = totalTurnoverCost_val data + totalDisengagementCost_val data"

definition improvedEngagement1Pt :: "ROIInput \<Rightarrow> jsnum" where
  "improvedEngagement1Pt data = Math_min (Fin 10) (ToNumber (engagementScore data) + Fin 1)"

definition newDisengagementInfluenceFactor1Pt :: "ROIInput \<Rightarrow> jsnum" where
  "newDisengagementInfluenceFactor1Pt data = (Fin 10 - improvedEngagement1Pt data) / Fin 10"

definition newProductivityLossCost1Pt :: "ROIInput \<Rightarrow> jsnum" where
  "newProductivityLossCost1Pt data =
     ToNumber (numEmployees data) * ToNumber (avgAnnualSalary data)
       * newDisengagementInfluenceFactor1Pt data * DISENGAGEMENT_PRODUCTIVITY_LOSS_FACTOR"

definition newAbsenteeismCost1Pt :: "ROIInput \<Rightarrow> jsnum" where
  "newAbsenteeismCost1Pt data =
     ToNumber (numEmployees data) * ToNumber (avgExtraAbsenteeismDaysPerEmployee data)
       * avgDailySalary data * newDisengagementInfluenceFactor1Pt data"

definition newTotalDisengagementCost1Pt :: "ROIInput \<Rightarrow> jsnum" where
  "newTotalDisengagementCost1Pt data = newProductivityLossCost1Pt data + newAbsenteeismCost1Pt data"

definition savings1Pt :: "ROIInput \<Rightarrow> jsnum" where
  "savings1Pt data = totalDisengagementCost_val data - newTotalDisengagementCost1Pt data"

definition improvedEngagement2Pt :: "ROIInput \<Rightarrow> jsnum" where
  "improvedEngagement2Pt data = Math_min (Fin 10) (ToNumber (engagementScore data) + Fin 2)"

definition newDisengagementInfluenceFactor2Pt :: "ROIInput \<Rightarrow> jsnum" where
  "newDisengagementInfluenceFactor2Pt data = (Fin 10 - improvedEngagement2Pt data) / Fin 10"

definition newProductivityLossCost2Pt :: "ROIInput \<Rightarrow> jsnum" where
  "newProductivityLossCost2Pt data =
     ToNumber (numEmployees data) * ToNumber (avgAnnualSalary data)
       * newDisengagementInfluenceFactor2Pt data * DISENGAGEMENT_PRODUCTIVITY_LOSS_FACTOR"

definition newAbsenteeismCost2Pt :: "ROIInput \<Rightarrow> jsnum" where
  "newAbsenteeismCost2Pt data =
     ToNumber (numEmployees data) * ToNumber (avgExtraAbsenteeismDaysPerEmployee data)
       * avgDailySalary data * newDisengagementInfluenceFactor2Pt data"

definition newTotalDisengagementCost2Pt :: "ROIInput \<Rightarrow> jsnum" where
  "newTotalDisengagementCost2Pt data = newProductivityLossCost2Pt data + newAbsenteeismCost2Pt data"

definition savings2Pt :: "ROIInput \<Rightarrow> jsnum" where
  "savings2Pt data = totalDisengagementCost_val data - newTotalDisengagementCost2Pt data"

definition potentialRevenueIncreaseMin_val :: "ROIInput \<Rightarrow> jsnum" where
  "potentialRevenueIncreaseMin_val data =
     ToNumber (annualRevenue data) * REVENUE_INCREASE_FACTOR_MIN
       * ((ToNumber (engagementScore data) + Fin 1) / Fin 10)"

definition potentialRevenueIncreaseMax_val :: "ROIInput \<Rightarrow> jsnum" where
  "potentialRevenueIncreaseMax_val data =
     ToNumber (annualRevenue data) * REVENUE_INCREASE_FACTOR_MAX
       * ((ToNumber (engagementScore data) + Fin 2) / Fin 10)"

subsection \<open>The returned object\<close>

definition calculateROI :: "ROIInput \<Rightarrow> ROIResult" where
  "calculateROI data =
     \<lparr> totalTurnoverCost = totalTurnoverCost_val data,
       totalDisengagementCost = totalDisengagementCost_val data,
       totalAbsenteeismCost = absenteeismCost data,
       totalHiddenLoss = totalHiddenLoss_val data,
       potentialSavingsMin = Math_max (Fin 0) (savings1Pt data),
       potentialSavingsMax = Math_max (Fin 0) (savings2Pt data),
       potentialRevenueIncreaseMin = potentialRevenueIncreaseMin_val data,
       potentialRevenueIncreaseMax = potentialRevenueIncreaseMax_val data \<rparr>"

section \<open>The two copies of the estimator in backend.js\<close>

text \<open>
  backend.js holds two further declarations of \<open>calculateROI\<close> (lines 199 and 817). Each
  is embedded on its own, as one chain of bindings in the order of its \<open>const\<close>
  declarations; the bound names are the source's and hide, inside the chain, the record
  fields and the constants of the same names.
\<close>

definition calculateROI_backend_199 :: "ROIInput \<Rightarrow> ROIResult" where
  "calculateROI_backend_199 data =
    (let numEmployees = numEmployees data;
         avgAnnualSalary = avgAnnualSalary data;
         annualRevenue = annualRevenue data;
         employeesWhoLeft = employeesWhoLeft data;
         avgExtraAbsenteeismDaysPerEmployee = avgExtraAbsenteeismDaysPerEmployee data;
         engagementScore = engagementScore data;
         DISENGAGEMENT_PRODUCTIVITY_LOSS_FACTOR = round64 0.34;
         AVG_REPLACEMENT_COST_FACTOR = Fin 1.25;
         WORKING_DAYS_PER_YEAR = Fin 250;
         REVENUE_INCREASE_FACTOR_MIN = round64 0.02;
         REVENUE_INCREASE_FACTOR_MAX = round64 0.05;
         costPerReplacement = ToNumber avgAnnualSalary * AVG_REPLACEMENT_COST_FACTOR;
         totalTurnoverCost = ToNumber employeesWhoLeft * costPerReplacement;
         disengagementInfluenceFactor = (Fin 10 - ToNumber engagementScore) / Fin 10;
         avgDailySalary = ToNumber avgAnnualSalary / WORKING_DAYS_PER_YEAR;
         productivityLossCost =
           ToNumber numEmployees * ToNumber avgAnnualSalary * disengagementInfluenceFactor
             * DISENGAGEMENT_PRODUCTIVITY_LOSS_FACTOR;
         absenteeismCost =
           ToNumber numEmployees * ToNumber avgExtraAbsenteeismDaysPerEmployee * avgDailySalary
             * disengagementInfluenceFactor;
         totalDisengagementCost = productivityLossCost + absenteeismCost;
         totalHiddenLoss = totalTurnoverCost + totalDisengagementCost;
         improvedEngagement1Pt = Math_min (Fin 10) (ToNumber engagementScore + Fin 1);
         newDisengagementInfluenceFactor1Pt = (Fin 10 - improvedEngagement1Pt) / Fin 10;
         newProductivityLossCost1Pt =
           ToNumber numEmployees * ToNumber avgAnnualSalary * newDisengagementInfluenceFactor1Pt
             * DISENGAGEMENT_PRODUCTIVITY_LOSS_FACTOR;
         newAbsenteeismCost1Pt =
           ToNumber numEmployees * ToNumber avgExtraAbsenteeismDaysPerEmployee * avgDailySalary
             * newDisengagementInfluenceFactor1Pt;
         newTotalDisengagementCost1Pt = newProductivityLossCost1Pt + newAbsenteeismCost1Pt;
         savings1Pt = totalDisengagementCost - newTotalDisengagementCost1Pt;
         improvedEngagement2Pt = Math_min (Fin 10) (ToNumber engagementScore + Fin 2);
         newDisengagementInfluenceFactor2Pt = (Fin 10 - improvedEngagement2Pt) / Fin 10;
         newProductivityLossCost2Pt =
           ToNumber numEmployees * ToNumber avgAnnualSalary * newDisengagementInfluenceFactor2Pt
             * DISENGAGEMENT_PRODUCTIVITY_LOSS_FACTOR;
         newAbsenteeismCost2Pt =
           ToNumber numEmployees * ToNumber avgExtraAbsenteeismDaysPerEmployee * avgDailySalary
             * newDisengagementInfluenceFactor2Pt;
         newTotalDisengagementCost2Pt = newProductivityLossCost2Pt + newAbsenteeismCost2Pt;
         savings2Pt = totalDisengagementCost - newTotalDisengagementCost2Pt;
         potentialRevenueIncreaseMin =
           ToNumber annualRevenue * REVENUE_INCREASE_FACTOR_MIN
             * ((ToNumber engagementScore + Fin 1) / Fin 10);
         potentialRevenueIncreaseMax =
           ToNumber annualRevenue * REVENUE_INCREASE_FACTOR_MAX
             * ((ToNumber engagementScore + Fin 2) / Fin 10)
     in \<lparr> totalTurnoverCost = totalTurnoverCost,
          totalDisengagementCost = totalDisengagementCost,
          totalAbsenteeismCost = absenteeismCost,
          totalHiddenLoss = totalHiddenLoss,
          potentialSavingsMin = Math_max (Fin 0) savings1Pt,
          potentialSavingsMax = Math_max (Fin 0) savings2Pt,
          potentialRevenueIncreaseMin = potentialRevenueIncreaseMin,
          potentialRevenueIncreaseMax = potentialRevenueIncreaseMax \<rparr>)"

definition calculateROI_backend_817 :: "ROIInput \<Rightarrow> ROIResult" where
  "calculateROI_backend_817 data =
    (let numEmployees = numEmployees data;
         avgAnnualSalary = avgAnnualSalary data;
         annualRevenue = annualRevenue data;
         employeesWhoLeft = employeesWhoLeft data;
         avgExtraAbsenteeismDaysPerEmployee = avgExtraAbsenteeismDaysPerEmployee data;
         engagementScore = engagementScore data;
         DISENGAGEMENT_PRODUCTIVITY_LOSS_FACTOR = round64 0.34;
         AVG_REPLACEMENT_COST_FACTOR = Fin 1.25;
         WORKING_DAYS_PER_YEAR = Fin 250;
         REVENUE_INCREASE_FACTOR_MIN = round64 0.02;
         REVENUE_INCREASE_FACTOR_MAX = round64 0.05;
         costPerReplacement = ToNumber avgAnnualSalary * AVG_REPLACEMENT_COST_FACTOR;
         totalTurnoverCost = ToNumber employeesWhoLeft * costPerReplacement;
         disengagementInfluenceFactor = (Fin 10 - ToNumber engagementScore) / Fin 10;
         avgDailySalary = ToNumber avgAnnualSalary / WORKING_DAYS_PER_YEAR;
         productivityLossCost =
           ToNumber numEmployees * ToNumber avgAnnualSalary * disengagementInfluenceFactor
             * DISENGAGEMENT_PRODUCTIVITY_LOSS_FACTOR;
         absenteeismCost =
           ToNumber numEmployees * ToNumber avgExtraAbsenteeismDaysPerEmployee * avgDailySalary
             * disengagementInfluenceFactor;
         totalDisengagementCost = productivityLossCost + absenteeismCost;
         totalHiddenLoss = totalTurnoverCost + totalDisengagementCost;
         improvedEngagement1Pt = Math_min (Fin 10) (ToNumber engagementScore + Fin 1);
         newDisengagementInfluenceFactor1Pt = (Fin 10 - improvedEngagement1Pt) / Fin 10;
         newProductivityLossCost1Pt =
           ToNumber numEmployees * ToNumber avgAnnualSalary * newDisengagementInfluenceFactor1Pt
             * DISENGAGEMENT_PRODUCTIVITY_LOSS_FACTOR;
         newAbsenteeismCost1Pt =
           ToNumber numEmployees * ToNumber avgExtraAbsenteeismDaysPerEmployee * avgDailySalary
             * newDisengagementInfluenceFactor1Pt;
         newTotalDisengagementCost1Pt = newProductivityLossCost1Pt + newAbsenteeismCost1Pt;
         savings1Pt = totalDisengagementCost - newTotalDisengagementCost1Pt;
         improvedEngagement2Pt = Math_min (Fin 10) (ToNumber engagementScore + Fin 2);
         newDisengagementInfluenceFactor2Pt = (Fin 10 - improvedEngagement2Pt) / Fin 10;
         newProductivityLossCost2Pt =
           ToNumber numEmployees * ToNumber avgAnnualSalary * newDisengagementInfluenceFactor2Pt
             * DISENGAGEMENT_PRODUCTIVITY_LOSS_FACTOR;
         newAbsenteeismCost2Pt =
           ToNumber numEmployees * ToNumber avgExtraAbsenteeismDaysPerEmployee * avgDailySalary
             * newDisengagementInfluenceFactor2Pt;
         newTotalDisengagementCost2Pt = newProductivityLossCost2Pt + newAbsenteeismCost2Pt;
         savings2Pt = totalDisengagementCost - newTotalDisengagementCost2Pt;
         potentialRevenueIncreaseMin =
           ToNumber annualRevenue * REVENUE_INCREASE_FACTOR_MIN
             * ((ToNumber engagementScore + Fin 1) / Fin 10);
         potentialRevenueIncreaseMax =
           ToNumber annualRevenue * REVENUE_INCREASE_FACTOR_MAX
             * ((ToNumber engagementScore + Fin 2) / Fin 10)
     in \<lparr> totalTurnoverCost = totalTurnoverCost,
          totalDisengagementCost = totalDisengagementCost,
          totalAbsenteeismCost = absenteeismCost,
          totalHiddenLoss = totalHiddenLoss,
          potentialSavingsMin = Math_max (Fin 0) savings1Pt,
          potentialSavingsMax = Math_max (Fin 0) savings2Pt,
          potentialRevenueIncreaseMin = potentialRevenueIncreaseMin,
          potentialRevenueIncreaseMax = potentialRevenueIncreaseMax \<rparr>)"

section \<open>The handler of POST /api/roi-calculator in roiCalculator.js\<close>

text \<open>
  The request body carries the six numeric fields and the two contact fields. The handler
  is modelled up to the call of \<open>calculateROI\<close>: it either answers with a status and an
  error message before the call (\<open>Rejected\<close>), or calls \<open>calculateROI\<close> on the six fields
  (\<open>Calculated\<close>, holding what the call returns). Storage, the notification and the
  response after the call are not modelled.
\<close>

record RequestBody = ROIInput +
  email :: "string option"
  phoneNumber :: "string option"

datatype outcome = Rejected nat string | Calculated ROIResult

definition required_field_missing :: "RequestBody \<Rightarrow> bool" where
  "required_field_missing body =
     (\<not> ToBoolean (numEmployees body) \<or> \<not> ToBoolean (avgAnnualSalary body)
      \<or> \<not> ToBoolean (annualRevenue body) \<or> \<not> ToBoolean_str (email body)
      \<or> \<not> ToBoolean_str (phoneNumber body))"

definition roi_calculator_handler :: "RequestBody \<Rightarrow> outcome" where
  "roi_calculator_handler body =
     (if required_field_missing body
      then Rejected 400 ''All required fields must be provided''
      else if ToNumber (employeesWhoLeft body) > ToNumber (numEmployees body)
      then Rejected 400 ''Number of employees who left cannot be more than total employees''
      else if ToNumber (engagementScore body) < Fin 1 \<or> ToNumber (engagementScore body) > Fin 10
      then Rejected 400 ''Engagement score must be between 1 and 10''
      else Calculated (calculateROI
        \<lparr> numEmployees = numEmployees body,
          avgAnnualSalary = avgAnnualSalary body,
          annualRevenue = annualRevenue body,
          employeesWhoLeft = employeesWhoLeft body,
          avgExtraAbsenteeismDaysPerEmployee = avgExtraAbsenteeismDaysPerEmployee body,
          engagementScore = engagementScore body \<rparr>))"

section \<open>The specification's data model and algorithm\<close>

text \<open>
  The specification states its ROIInput and ROIResult over the reals. These records,
  \<open>valid_input\<close> and \<open>spec_compute\<close> follow the specification's words (its data model and
  the nine steps of its algorithm, in real arithmetic); they are what the code is compared
  with, not a model of the code.
\<close>

record ROIInput_spec =
  numEmployees_r :: real
  avgAnnualSalary_r :: real
  annualRevenue_r :: real
  employeesWhoLeft_r :: real
  avgExtraAbsenteeismDaysPerEmployee_r :: real
  engagementScore_r :: real

record ROIResult_spec =
  totalTurnoverCost_r :: real
  totalDisengagementCost_r :: real
  totalAbsenteeismCost_r :: real
  totalHiddenLoss_r :: real
  potentialSavingsMin_r :: real
  potentialSavingsMax_r :: real
  potentialRevenueIncreaseMin_r :: real
  potentialRevenueIncreaseMax_r :: real

text \<open>The ranges of a valid input.\<close>

definition valid_input :: "ROIInput_spec \<Rightarrow> bool" where
  "valid_input i =
     (1 \<le> numEmployees_r i \<and> 0 \<le> avgAnnualSalary_r i \<and> 0 \<le> annualRevenue_r i
      \<and> 0 \<le> employeesWhoLeft_r i \<and> employeesWhoLeft_r i \<le> numEmployees_r i
      \<and> 0 \<le> avgExtraAbsenteeismDaysPerEmployee_r i
      \<and> 1 \<le> engagementScore_r i \<and> engagementScore_r i \<le> 10)"

text \<open>Steps 2 to 5, at an engagement score \<open>e\<close>.\<close>

definition spec_absenteeismCost :: "ROIInput_spec \<Rightarrow> real \<Rightarrow> real" where
  "spec_absenteeismCost i e =
     numEmployees_r i * avgExtraAbsenteeismDaysPerEmployee_r i * (avgAnnualSalary_r i / 250)
       * ((10 - e) / 10)"

definition spec_disengagementCost :: "ROIInput_spec \<Rightarrow> real \<Rightarrow> real" where
  "spec_disengagementCost i e =
     numEmployees_r i * avgAnnualSalary_r i * ((10 - e) / 10) * 0.34 + spec_absenteeismCost i e"

text \<open>Step 7, for a gain of \<open>delta\<close> points.\<close>

definition spec_savings :: "ROIInput_spec \<Rightarrow> real \<Rightarrow> real" where
  "spec_savings i delta =
     max 0 (spec_disengagementCost i (engagementScore_r i)
            - spec_disengagementCost i (min 10 (engagementScore_r i + delta)))"

definition spec_compute :: "ROIInput_spec \<Rightarrow> ROIResult_spec" where
  "spec_compute i =
     \<lparr> totalTurnoverCost_r = employeesWhoLeft_r i * avgAnnualSalary_r i * 1.25,
       totalDisengagementCost_r = spec_disengagementCost i (engagementScore_r i),
       totalAbsenteeismCost_r = spec_absenteeismCost i (engagementScore_r i),
       totalHiddenLoss_r =
         employeesWhoLeft_r i * avgAnnualSalary_r i * 1.25
           + spec_disengagementCost i (engagementScore_r i),
       potentialSavingsMin_r = spec_savings i 1,
       potentialSavingsMax_r = spec_savings i 2,
       potentialRevenueIncreaseMin_r = annualRevenue_r i * 0.02 * (engagementScore_r i + 1) / 10,
       potentialRevenueIncreaseMax_r = annualRevenue_r i * 0.05 * (engagementScore_r i + 2) / 10 \<rparr>"

text \<open>
  A real input as the object the code receives: each number of the JSON text is read as
  the nearest double. A real result as an object of the kind the code returns.
\<close>

definition js_input :: "ROIInput_spec \<Rightarrow> ROIInput" where
  "js_input i =
     \<lparr> numEmployees = Number (round64 (numEmployees_r i)),
       avgAnnualSalary = Number (round64 (avgAnnualSalary_r i)),
       annualRevenue = Number (round64 (annualRevenue_r i)),
       employeesWhoLeft = Number (round64 (employeesWhoLeft_r i)),
       avgExtraAbsenteeismDaysPerEmployee = Number (round64 (avgExtraAbsenteeismDaysPerEmployee_r i)),
       engagementScore = Number (round64 (engagementScore_r i)) \<rparr>"

definition js_result :: "ROIResult_spec \<Rightarrow> ROIResult" where
  "js_result r =
     \<lparr> totalTurnoverCost = Fin (totalTurnoverCost_r r),
       totalDisengagementCost = Fin (totalDisengagementCost_r r),
       totalAbsenteeismCost = Fin (totalAbsenteeismCost_r r),
       totalHiddenLoss = Fin (totalHiddenLoss_r r),
       potentialSavingsMin = Fin (potentialSavingsMin_r r),
       potentialSavingsMax = Fin (potentialSavingsMax_r r),
       potentialRevenueIncreaseMin = Fin (potentialRevenueIncreaseMin_r r),
       potentialRevenueIncreaseMax = Fin (potentialRevenueIncreaseMax_r r) \<rparr>"

text \<open>
  The nine steps again, now in the arithmetic of the language: steps 2 to 5 as one
  function of the score, used at the score and at the two capped scores of step 7, and
  steps 8 and 9 with the quotient by 10 taken first, as the code groups them.
\<close>

definition steps_disengagementCost :: "ROIInput \<Rightarrow> jsnum \<Rightarrow> jsnum" where
  "steps_disengagementCost data score =
     ToNumber (numEmployees data) * ToNumber (avgAnnualSalary data)
         * ((Fin 10 - score) / Fin 10) * round64 0.34
       + ToNumber (numEmployees data) * ToNumber (avgExtraAbsenteeismDaysPerEmployee data)
           * (ToNumber (avgAnnualSalary data) / Fin 250) * ((Fin 10 - score) / Fin 10)"

definition steps_savings :: "ROIInput \<Rightarrow> jsnum \<Rightarrow> jsnum" where
  "steps_savings data delta =
     Math_max (Fin 0)
       (steps_disengagementCost data (ToNumber (engagementScore data))
          - steps_disengagementCost data
              (Math_min (Fin 10) (ToNumber (engagementScore data) + delta)))"

definition steps_compute :: "ROIInput \<Rightarrow> ROIResult" where
  "steps_compute data =
     \<lparr> totalTurnoverCost =
         ToNumber (employeesWhoLeft data) * (ToNumber (avgAnnualSalary data) * Fin 1.25),
       totalDisengagementCost =
         steps_disengagementCost data (ToNumber (engagementScore data)),
       totalAbsenteeismCost =
         ToNumber (numEmployees data) * ToNumber (avgExtraAbsenteeismDaysPerEmployee data)
           * (ToNumber (avgAnnualSalary data) / Fin 250)
           * ((Fin 10 - ToNumber (engagementScore data)) / Fin 10),
       totalHiddenLoss =
         ToNumber (employeesWhoLeft data) * (ToNumber (avgAnnualSalary data) * Fin 1.25)
           + steps_disengagementCost data (ToNumber (engagementScore data)),
       potentialSavingsMin = steps_savings data (Fin 1),
       potentialSavingsMax = steps_savings data (Fin 2),
       potentialRevenueIncreaseMin =
         ToNumber (annualRevenue data) * round64 0.02
           * ((ToNumber (engagementScore data) + Fin 1) / Fin 10),
       potentialRevenueIncreaseMax =
         ToNumber (annualRevenue data) * round64 0.05
           * ((ToNumber (engagementScore data) + Fin 2) / Fin 10) \<rparr>"



text \<open>Finiteness of a number, and of every field of a result.\<close>

fun is_finite :: "jsnum \<Rightarrow> bool" where
  "is_finite (Fin a) = True"
| "is_finite x = False"


text \<open>The example input of the specification.\<close>

definition example_input :: ROIInput_spec where
  "example_input =
     \<lparr> numEmployees_r = 100, avgAnnualSalary_r = 600000, annualRevenue_r = 50000000,
       employeesWhoLeft_r = 10, avgExtraAbsenteeismDaysPerEmployee_r = 5,
       engagementScore_r = 6 \<rparr>"

text \<open>
  Further inputs: a score of 10; a salary of 0; a revenue of 75000000 and a revenue of
  \<open>2^-1074\<close> (the smallest positive double) at a score of 10; and a salary of \<open>2^1023\<close>
  for 4 employees, at a score of 5 and at a score of 10.
\<close>

definition top_score_input :: ROIInput_spec where
  "top_score_input = example_input \<lparr> engagementScore_r := 10 \<rparr>"

definition zero_salary_input :: ROIInput_spec where
  "zero_salary_input = example_input \<lparr> avgAnnualSalary_r := 0 \<rparr>"

definition revenue_input :: ROIInput_spec where
  "revenue_input = example_input \<lparr> annualRevenue_r := 75000000, engagementScore_r := 10 \<rparr>"

definition large_salary_input :: ROIInput_spec where
  "large_salary_input =
     \<lparr> numEmployees_r = 4, avgAnnualSalary_r = 2 ^ 1023, annualRevenue_r = 1,
       employeesWhoLeft_r = 0, avgExtraAbsenteeismDaysPerEmployee_r = 0,
       engagementScore_r = 5 \<rparr>"

definition tiny_revenue_input :: ROIInput_spec where
  "tiny_revenue_input =
     example_input \<lparr> annualRevenue_r := 1 / 2 ^ 1074, engagementScore_r := 10 \<rparr>"

definition large_salary_top_input :: ROIInput_spec where
  "large_salary_top_input = large_salary_input \<lparr> engagementScore_r := 10 \<rparr>"

text \<open>The request body that carries the fields of \<open>data\<close> and the two contact fields.\<close>

definition request_body :: "ROIInput \<Rightarrow> string option \<Rightarrow> string option \<Rightarrow> RequestBody" where
  "request_body data e p =
     \<lparr> numEmployees = numEmployees data,
       avgAnnualSalary = avgAnnualSalary data,
       annualRevenue = annualRevenue data,
       employeesWhoLeft = employeesWhoLeft data,
       avgExtraAbsenteeismDaysPerEmployee = avgExtraAbsenteeismDaysPerEmployee data,
       engagementScore = engagementScore data,
       email = e, phoneNumber = p \<rparr>"

definition example_body :: RequestBody where
  "example_body =
     \<lparr> numEmployees = Number (Fin 100), avgAnnualSalary = Number (Fin 600000),
       annualRevenue = Number (Fin 50000000), employeesWhoLeft = Number (Fin 10),
       avgExtraAbsenteeismDaysPerEmployee = Number (Fin 5), engagementScore = Number (Fin 6),
       email = Some ''hr@example.com'', phoneNumber = Some ''9876543210'' \<rparr>"

section \<open>Rounding to the nearest even integer\<close>

lemma rhe_of_int [simp]: "round_half_even (of_int n) = n"
  by (simp add: round_half_even_def)

lemma rhe_lower: "\<lfloor>t\<rfloor> \<le> round_half_even t"
  by (simp add: round_half_even_def Let_def)

lemma rhe_upper: "round_half_even t \<le> \<lfloor>t\<rfloor> + 1"
  by (simp add: round_half_even_def Let_def)

lemma rhe_same_floor:
  assumes "t \<le> u" and "\<lfloor>t\<rfloor> = \<lfloor>u\<rfloor>"
  shows "round_half_even t \<le> round_half_even u"
  using assms by (auto simp add: round_half_even_def Let_def)

lemma rhe_mono:
  assumes "t \<le> u"
  shows "round_half_even t \<le> round_half_even u"
proof (cases "\<lfloor>t\<rfloor> = \<lfloor>u\<rfloor>")
  case True
  with assms show ?thesis by (rule rhe_same_floor)
next
  case False
  with assms have "\<lfloor>t\<rfloor> < \<lfloor>u\<rfloor>"
    using floor_mono [of t u] by simp
  then have "\<lfloor>t\<rfloor> + 1 \<le> \<lfloor>u\<rfloor>" by simp
  with rhe_upper [of t] rhe_lower [of u] show ?thesis by linarith
qed

lemma rhe_ge_int: "of_int k \<le> t \<Longrightarrow> k \<le> round_half_even t"
  using rhe_mono [of "of_int k" t] by simp

lemma rhe_le_int: "t \<le> of_int k \<Longrightarrow> round_half_even t \<le> k"
  using rhe_mono [of t "of_int k"] by simp

section \<open>The binade of a real\<close>

lemma find_exp_lower: "e \<le> find_exp k e x"
proof (induction k arbitrary: e)
  case 0
  show ?case by simp
next
  case (Suc k)
  from Suc [of "e + 1"] show ?case by simp
qed

lemma find_exp_upper: "find_exp k e x \<le> e + int k"
proof (induction k arbitrary: e)
  case 0
  show ?case by simp
next
  case (Suc k)
  from Suc [of "e + 1"] show ?case by simp
qed

lemma find_exp_le: "find_exp k e x \<noteq> e \<Longrightarrow> 2 powi (find_exp k e x) \<le> x"
proof (induction k arbitrary: e)
  case 0
  then show ?case by simp
next
  case (Suc k)
  show ?case
  proof (cases "2 powi (e + 1) \<le> x")
    case True
    show ?thesis
    proof (cases "find_exp k (e + 1) x = e + 1")
      case True
      with \<open>2 powi (e + 1) \<le> x\<close> show ?thesis by simp
    next
      case False
      from Suc.IH [OF False] \<open>2 powi (e + 1) \<le> x\<close> show ?thesis by simp
    qed
  next
    case False
    with Suc.prems show ?thesis by simp
  qed
qed

lemma find_exp_lt: "find_exp k e x < e + int k \<Longrightarrow> x < 2 powi (find_exp k e x + 1)"
proof (induction k arbitrary: e)
  case 0
  then show ?case by simp
next
  case (Suc k)
  show ?case
  proof (cases "2 powi (e + 1) \<le> x")
    case True
    with Suc.prems have "find_exp k (e + 1) x < (e + 1) + int k" by simp
    from Suc.IH [OF this] True show ?thesis by simp
  next
    case False
    then show ?thesis by simp
  qed
qed

lemma find_exp_mono: "x \<le> y \<Longrightarrow> find_exp k e x \<le> find_exp k e y"
proof (induction k arbitrary: e)
  case 0
  show ?case by simp
next
  case (Suc k)
  show ?case
  proof (cases "2 powi (e + 1) \<le> x")
    case True
    with Suc.prems have "2 powi (e + 1) \<le> y" by simp
    with True Suc.IH [OF Suc.prems, of "e + 1"] show ?thesis by simp
  next
    case False
    with find_exp_lower [of "e + 1" k y] show ?thesis by simp
  qed
qed

lemma binade_range: "- 1022 \<le> binade x" "binade x \<le> 1024"
  using find_exp_lower [of "- 1022" 2046 "\<bar>x\<bar>"] find_exp_upper [of 2046 "- 1022" "\<bar>x\<bar>"]
  by (simp_all add: binade_def)

lemma binade_le: "binade x \<noteq> - 1022 \<Longrightarrow> 2 powi (binade x) \<le> \<bar>x\<bar>"
  unfolding binade_def by (rule find_exp_le)

lemma binade_lt: "binade x < 1024 \<Longrightarrow> \<bar>x\<bar> < 2 powi (binade x + 1)"
  unfolding binade_def by (rule find_exp_lt) simp

lemma binade_mono: "\<bar>x\<bar> \<le> \<bar>y\<bar> \<Longrightarrow> binade x \<le> binade y"
  unfolding binade_def by (rule find_exp_mono)

lemma binade_eqI:
  assumes "- 1022 \<le> E" and "E \<le> 1024"
    and lo: "E = - 1022 \<or> 2 powi E \<le> \<bar>x\<bar>"
    and hi: "E = 1024 \<or> \<bar>x\<bar> < 2 powi (E + 1)"
  shows "binade x = E"
proof (rule antisym)
  show "binade x \<le> E"
  proof (rule ccontr)
    assume "\<not> binade x \<le> E"
    then have gt: "E < binade x" by simp
    with assms(1) have "binade x \<noteq> - 1022" by simp
    from binade_le [OF this] have le: "2 powi (binade x) \<le> \<bar>x\<bar>" .
    from gt binade_range(2) [of x] have "E \<noteq> 1024" by simp
    with hi have "\<bar>x\<bar> < 2 powi (E + 1)" by simp
    also from gt have "(2::real) powi (E + 1) \<le> 2 powi (binade x)"
      by (intro power_int_increasing) simp_all
    finally show False using le by simp
  qed
  show "E \<le> binade x"
  proof (rule ccontr)
    assume "\<not> E \<le> binade x"
    then have lt: "binade x < E" by simp
    with assms(2) have "binade x < 1024" by simp
    from binade_lt [OF this] have "\<bar>x\<bar> < 2 powi (binade x + 1)" .
    also from lt have "(2::real) powi (binade x + 1) \<le> 2 powi E"
      by (intro power_int_increasing) simp_all
    finally have "\<bar>x\<bar> < 2 powi E" .
    moreover from lt binade_range(1) [of x] have "E \<noteq> - 1022" by simp
    ultimately show False using lo by simp
  qed
qed

section \<open>The nearest double\<close>

lemma two_powi_int: "0 \<le> n \<Longrightarrow> (2::real) powi n = of_int (2 ^ nat n)"
  by (simp add: power_int_nonneg_exp)

lemma two_powi_pos [simp]: "0 < (2::real) powi n"
  by (simp add: zero_less_power_int)

lemma two_powi_quot: "(2::real) powi a / 2 powi b = 2 powi (a - b)"
  by (simp add: power_int_diff)

lemma two_powi_add: "(2::real) powi a * 2 powi b = 2 powi (a + b)"
  by (simp add: power_int_add)

lemma two_powi_le_D: "(2::real) powi a \<le> 2 powi b \<Longrightarrow> a \<le> b"
proof (rule ccontr)
  assume le: "(2::real) powi a \<le> 2 powi b" and "\<not> a \<le> b"
  then have "b < a" by simp
  then have "(2::real) powi b < 2 powi a"
    by (rule power_int_strict_increasing) simp
  with le show False by simp
qed

lemma two_pow_53: "(2::real) ^ 53 * 2 powi (E - 52) = 2 powi (E + 1)"
proof -
  have "(2::real) powi 53 * 2 powi (E - 52) = 2 powi (53 + (E - 52))"
    by (rule two_powi_add)
  then show ?thesis by (simp add: add.commute)
qed

lemma nearest_unfold:
  "nearest x = of_int (round_half_even (x / 2 powi (binade x - 52))) * 2 powi (binade x - 52)"
  by (simp add: nearest_def Let_def)

lemma nearest_nonneg: "0 \<le> x \<Longrightarrow> 0 \<le> nearest x"
proof -
  assume "0 \<le> x"
  then have "of_int 0 \<le> x / 2 powi (binade x - 52)" by simp
  then have "0 \<le> round_half_even (x / 2 powi (binade x - 52))" by (rule rhe_ge_int)
  then show ?thesis by (simp add: nearest_unfold)
qed

lemma nearest_le_power:
  assumes "x \<le> 2 powi B" and "binade x - 52 \<le> B"
  shows "nearest x \<le> 2 powi B"
proof -
  let ?q = "(2::real) powi (binade x - 52)"
  let ?k = "(2::int) ^ nat (B - (binade x - 52))"
  have B: "(2::real) powi B = of_int ?k * ?q"
  proof -
    have "(2::real) powi B = 2 powi (B - (binade x - 52)) * ?q"
      by (simp add: power_int_add [symmetric])
    also have "\<dots> = of_int ?k * ?q"
      using assms(2) by (simp add: two_powi_int)
    finally show ?thesis .
  qed
  have "x / ?q \<le> 2 powi B / ?q"
    using assms(1) by (simp add: divide_right_mono)
  also have "2 powi B / ?q = of_int ?k"
    by (simp add: B)
  finally have "round_half_even (x / ?q) \<le> ?k"
    by (rule rhe_le_int)
  then have "(of_int (round_half_even (x / ?q)) :: real) \<le> of_int ?k"
    by (simp only: of_int_le_iff)
  then have "of_int (round_half_even (x / ?q)) * ?q \<le> of_int ?k * ?q"
    by (rule mult_right_mono) simp
  then show ?thesis by (simp only: nearest_unfold B)
qed

lemma nearest_ge_power:
  assumes "2 powi B \<le> x" and "binade x - 52 \<le> B"
  shows "2 powi B \<le> nearest x"
proof -
  let ?q = "(2::real) powi (binade x - 52)"
  let ?k = "(2::int) ^ nat (B - (binade x - 52))"
  have B: "(2::real) powi B = of_int ?k * ?q"
  proof -
    have "(2::real) powi B = 2 powi (B - (binade x - 52)) * ?q"
      by (simp add: power_int_add [symmetric])
    also have "\<dots> = of_int ?k * ?q"
      using assms(2) by (simp add: two_powi_int)
    finally show ?thesis .
  qed
  have "2 powi B / ?q \<le> x / ?q"
    using assms(1) by (simp add: divide_right_mono)
  moreover have "2 powi B / ?q = of_int ?k"
    by (simp add: B)
  ultimately have "of_int ?k \<le> x / ?q" by simp
  then have "?k \<le> round_half_even (x / ?q)"
    by (rule rhe_ge_int)
  then have "(of_int ?k :: real) \<le> of_int (round_half_even (x / ?q))"
    by (simp only: of_int_le_iff)
  then have "of_int ?k * ?q \<le> of_int (round_half_even (x / ?q)) * ?q"
    by (rule mult_right_mono) simp
  then show ?thesis by (simp only: nearest_unfold B)
qed

lemma nearest_mono:
  assumes "0 \<le> x" and "x \<le> y"
  shows "nearest x \<le> nearest y"
proof -
  from assms have b: "binade x \<le> binade y"
    by (intro binade_mono) simp
  show ?thesis
  proof (cases "binade x = binade y")
    case True
    let ?q = "(2::real) powi (binade y - 52)"
    have "x / ?q \<le> y / ?q"
      using assms(2) by (simp add: divide_right_mono)
    then have "round_half_even (x / ?q) \<le> round_half_even (y / ?q)"
      by (rule rhe_mono)
    then have "(of_int (round_half_even (x / ?q)) :: real) \<le> of_int (round_half_even (y / ?q))"
      by (simp only: of_int_le_iff)
    then have "of_int (round_half_even (x / ?q)) * ?q \<le> of_int (round_half_even (y / ?q)) * ?q"
      by (rule mult_right_mono) simp
    then show ?thesis by (simp add: nearest_unfold True)
  next
    case False
    with b have lt: "binade x < binade y" by simp
    with binade_range(2) [of y] have "binade x < 1024" by simp
    from binade_lt [OF this] assms(1) have "x < 2 powi (binade x + 1)" by simp
    also from lt have "(2::real) powi (binade x + 1) \<le> 2 powi (binade y)"
      by (intro power_int_increasing) simp_all
    finally have xB: "x \<le> 2 powi (binade y)" by simp
    from lt binade_range(1) [of x] have "binade y \<noteq> - 1022" by simp
    from binade_le [OF this] assms have yB: "2 powi (binade y) \<le> y" by simp
    have "nearest x \<le> 2 powi (binade y)"
      using xB lt by (intro nearest_le_power) simp_all
    also have "2 powi (binade y) \<le> nearest y"
      using yB by (intro nearest_ge_power) simp_all
    finally show ?thesis .
  qed
qed

text \<open>A multiple of a spacing, with a significand of at most 53 bits, is its own nearest double.\<close>

lemma nearest_grid:
  assumes E: "- 1022 \<le> E" and n: "\<bar>n\<bar> \<le> 2 ^ 53"
    and x: "x = of_int n * 2 powi (E - 52)"
  shows "nearest x = x"
proof -
  let ?b = "binade x"
  have absx: "\<bar>x\<bar> = of_int \<bar>n\<bar> * 2 powi (E - 52)"
    by (simp add: x abs_mult)
  have "of_int \<bar>n\<bar> \<le> (2::real) ^ 53"
    using n by (metis of_int_le_iff of_int_numeral of_int_power)
  then have "of_int \<bar>n\<bar> * 2 powi (E - 52) \<le> (2::real) ^ 53 * 2 powi (E - 52)"
    by (rule mult_right_mono) simp
  also have "(2::real) ^ 53 * 2 powi (E - 52) = 2 powi (E + 1)"
    by (rule two_pow_53)
  finally have ub: "\<bar>x\<bar> \<le> 2 powi (E + 1)"
    by (simp only: absx)
  have "\<exists>k. x / 2 powi (?b - 52) = of_int k"
  proof (cases "?b \<le> E")
    case True
    have "x / 2 powi (?b - 52) = of_int n * (2 powi (E - 52) / 2 powi (?b - 52))"
      by (simp add: x)
    also have "2 powi (E - 52) / 2 powi (?b - 52) = (2::real) powi (E - ?b)"
      by (simp add: two_powi_quot)
    also have "\<dots> = of_int (2 ^ nat (E - ?b))"
      using True by (simp add: two_powi_int)
    finally have "x / 2 powi (?b - 52) = of_int (n * 2 ^ nat (E - ?b))"
      by simp
    then show ?thesis ..
  next
    case False
    then have gt: "E < ?b" by simp
    with E have "?b \<noteq> - 1022" by simp
    from binade_le [OF this] have lb: "2 powi ?b \<le> \<bar>x\<bar>" .
    from gt have "(2::real) powi (E + 1) \<le> 2 powi ?b"
      by (intro power_int_increasing) simp_all
    with lb ub have eq: "\<bar>x\<bar> = 2 powi (E + 1)" and "2 powi ?b \<le> (2::real) powi (E + 1)"
      by simp_all
    then have "?b \<le> E + 1"
      by (intro two_powi_le_D)
    with gt have b: "?b = E + 1" by simp
    have "\<bar>x\<bar> / 2 powi (?b - 52) = 2 powi (E + 1) / 2 powi (E + 1 - 52)"
      by (simp add: eq b)
    also have "\<dots> = 2 powi 52"
      by (simp only: two_powi_quot) simp
    finally have "\<bar>x / 2 powi (?b - 52)\<bar> = of_int (2 ^ 52)"
      by (simp add: abs_divide)
    then have "x / 2 powi (?b - 52) = of_int (2 ^ 52) \<or> x / 2 powi (?b - 52) = of_int (- (2 ^ 52))"
      by (simp add: abs_if split: if_splits)
    then show ?thesis by blast
  qed
  then obtain k where k: "x / 2 powi (?b - 52) = of_int k" ..
  then have "x = of_int k * 2 powi (?b - 52)"
    by (simp add: field_simps)
  moreover have "nearest x = of_int k * 2 powi (?b - 52)"
    by (simp add: nearest_unfold k)
  ultimately show ?thesis by simp
qed

lemma round64_grid:
  assumes "- 1022 \<le> E" and "\<bar>n\<bar> \<le> 2 ^ 53" and "x = of_int n * 2 powi (E - 52)"
    and "\<bar>x\<bar> < 2 powi 1024"
  shows "round64 x = Fin x"
  using nearest_grid [OF assms(1-3)] assms(4) by (simp add: round64_def)

lemma binade_huge: "2 powi 1024 \<le> \<bar>x\<bar> \<Longrightarrow> binade x = 1024"
  by (rule binade_eqI) simp_all

text \<open>The significand of the nearest double has at most 53 bits, unless \<open>x\<close> is beyond all doubles.\<close>

lemma significand_bound:
  assumes "binade x < 1024"
  shows "\<bar>round_half_even (x / 2 powi (binade x - 52))\<bar> \<le> 2 ^ 53"
proof -
  let ?q = "(2::real) powi (binade x - 52)"
  have "2 powi (binade x + 1) / ?q = (2::real) powi (binade x + 1 - (binade x - 52))"
    by (rule two_powi_quot)
  then have top: "2 powi (binade x + 1) / ?q = of_int (2 ^ 53)"
    by simp
  from binade_lt [OF assms] have "\<bar>x\<bar> / ?q \<le> 2 powi (binade x + 1) / ?q"
    by (simp add: divide_right_mono)
  then have le: "\<bar>x\<bar> / ?q \<le> of_int (2 ^ 53)"
    by (simp only: top)
  have "x / ?q \<le> \<bar>x\<bar> / ?q"
    by (rule divide_right_mono) simp_all
  with le have "x / ?q \<le> of_int (2 ^ 53)"
    by linarith
  then have up: "round_half_even (x / ?q) \<le> 2 ^ 53"
    by (rule rhe_le_int)
  have "(- \<bar>x\<bar>) / ?q \<le> x / ?q"
    by (rule divide_right_mono) simp_all
  with le have "of_int (- (2 ^ 53)) \<le> x / ?q"
    by simp
  then have "- (2 ^ 53) \<le> round_half_even (x / ?q)"
    by (rule rhe_ge_int)
  with up show ?thesis by simp
qed

lemma nearest_huge:
  assumes "2 powi 1024 \<le> \<bar>x\<bar>"
  shows "2 powi 1024 \<le> \<bar>nearest x\<bar>"
proof -
  from binade_huge [OF assms] have b: "binade x = 1024" .
  let ?q = "(2::real) powi (1024 - 52)"
  have q: "(2::real) powi 1024 = of_int (2 ^ 52) * ?q"
    by (simp add: power_int_add [symmetric])
  from assms have "of_int (2 ^ 52) * ?q \<le> \<bar>x\<bar>" by (simp only: q)
  then have "of_int (2 ^ 52) \<le> \<bar>x\<bar> / ?q"
    by (simp add: pos_le_divide_eq)
  then have "of_int (2 ^ 52) \<le> x / ?q \<or> x / ?q \<le> of_int (- (2 ^ 52))"
    by (simp add: abs_if field_simps split: if_splits)
  then have "2 ^ 52 \<le> round_half_even (x / ?q) \<or> round_half_even (x / ?q) \<le> - (2 ^ 52)"
    using rhe_ge_int rhe_le_int by blast
  then have "2 ^ 52 \<le> \<bar>round_half_even (x / ?q)\<bar>"
    by linarith
  then have "(of_int (2 ^ 52) :: real) \<le> of_int \<bar>round_half_even (x / ?q)\<bar>"
    by (simp only: of_int_le_iff)
  then have "of_int (2 ^ 52) * ?q \<le> of_int \<bar>round_half_even (x / ?q)\<bar> * ?q"
    by (rule mult_right_mono) simp
  then show ?thesis
    by (simp add: nearest_unfold b abs_mult q)
qed

lemma round64_overflow: "2 powi 1024 \<le> x \<Longrightarrow> round64 x = PInf"
proof -
  assume a: "2 powi 1024 \<le> x"
  have "(0::real) < 2 powi 1024" by simp
  with a have "0 < x" by linarith
  moreover from a have "2 powi 1024 \<le> \<bar>x\<bar>" by simp
  then have "2 powi 1024 \<le> \<bar>nearest x\<bar>" by (rule nearest_huge)
  ultimately show ?thesis by (simp add: round64_def)
qed

text \<open>A real is a double when rounding leaves it alone; every finite result of rounding is one.\<close>

lemma round64_idem:
  assumes "round64 x = Fin y"
  shows "round64 y = Fin y"
proof -
  from assms have y: "y = nearest x" and fin: "\<bar>nearest x\<bar> < 2 powi 1024"
    by (simp_all add: round64_def split: if_splits)
  have "binade x < 1024"
  proof (rule ccontr)
    assume "\<not> binade x < 1024"
    with binade_range(2) [of x] have b: "binade x = 1024" by simp
    then have "binade x \<noteq> - 1022" by simp
    from binade_le [OF this] b have "2 powi 1024 \<le> \<bar>x\<bar>" by simp
    from nearest_huge [OF this] fin show False by simp
  qed
  then have "\<bar>round_half_even (x / 2 powi (binade x - 52))\<bar> \<le> 2 ^ 53"
    by (rule significand_bound)
  from round64_grid [OF binade_range(1) this, of y x] y fin
  show ?thesis by (simp add: nearest_unfold)
qed

section \<open>Rounding as an operation on numbers\<close>

lemma Fin_le [simp]: "(Fin a \<le> Fin b) = (a \<le> b)"
  by (simp add: less_eq_jsnum_def not_less)

lemma le_PInf [simp]: "(Fin a \<le> PInf) = True" "(PInf \<le> PInf) = True" "(PInf \<le> Fin a) = False"
  by (simp_all add: less_eq_jsnum_def)

lemma le_NInf [simp]: "(Fin a \<le> NInf) = False" "(PInf \<le> NInf) = False"
  by (simp_all add: less_eq_jsnum_def)

lemma rhe_zero [simp]: "round_half_even 0 = 0"
  by (simp add: round_half_even_def)

lemma NaN_le [simp]: "(NaN \<le> x) = False" "(x \<le> NaN) = False"
  by (simp_all add: less_eq_jsnum_def)

lemma round64_zero [simp]: "round64 0 = Fin 0"
  using round64_grid [of 0 0 0] by simp

lemma round64_int: "\<bar>n\<bar> \<le> 2 ^ 53 \<Longrightarrow> round64 (of_int n) = Fin (of_int n)"
proof -
  assume n: "\<bar>n\<bar> \<le> 2 ^ 53"
  then have "\<bar>of_int n :: real\<bar> \<le> of_int (2 ^ 53)"
    by (simp only: of_int_abs [symmetric] of_int_le_iff)
  also have "(of_int (2 ^ 53) :: real) < 2 powi 1024"
    by simp
  finally have "\<bar>of_int n :: real\<bar> < 2 powi 1024" .
  with round64_grid [of 52 n "of_int n"] n show ?thesis by simp
qed

lemma round64_nn_cases:
  assumes "0 \<le> x"
  shows "round64 x = PInf \<or> (\<exists>y. round64 x = Fin y \<and> 0 \<le> y)"
proof (cases "2 powi 1024 \<le> \<bar>nearest x\<bar>")
  case True
  have "x \<noteq> 0"
  proof
    assume "x = 0"
    then have "nearest x = 0" by (simp add: nearest_unfold)
    with True show False by simp
  qed
  with assms have "0 < x" by simp
  with True show ?thesis by (simp add: round64_def)
next
  case False
  with nearest_nonneg [OF assms] show ?thesis by (simp add: round64_def)
qed

lemma round64_mono:
  assumes "0 \<le> x" and "x \<le> y"
  shows "round64 x \<le> round64 y"
proof -
  from assms have y: "0 \<le> y" by simp
  from nearest_mono [OF assms] have le: "nearest x \<le> nearest y" .
  from nearest_nonneg [OF assms(1)] nearest_nonneg [OF y]
  have nn: "0 \<le> nearest x" "0 \<le> nearest y" .
  from round64_nn_cases [OF assms(1)] round64_nn_cases [OF y] le nn
  show ?thesis
    by (auto simp add: round64_def split: if_splits)
qed

lemma round64_nonneg: "0 \<le> x \<Longrightarrow> Fin 0 \<le> round64 x"
  using round64_mono [of 0 x] by simp

text \<open>Between two doubles the result of rounding is a double between them.\<close>

lemma round64_between:
  assumes lo: "round64 lo = Fin lo" and hi: "round64 hi = Fin hi"
    and "0 \<le> lo" and "lo \<le> x" and "x \<le> hi"
  shows "\<exists>y. round64 x = Fin y \<and> lo \<le> y \<and> y \<le> hi \<and> round64 y = Fin y"
proof -
  from assms have x: "0 \<le> x" by simp
  from round64_mono [OF \<open>0 \<le> lo\<close> \<open>lo \<le> x\<close>] lo have l: "Fin lo \<le> round64 x" by simp
  from round64_mono [OF x \<open>x \<le> hi\<close>] hi have h: "round64 x \<le> Fin hi" by simp
  from l h obtain y where y: "round64 x = Fin y"
    by (cases "round64 x") simp_all
  with l h round64_idem [OF y] show ?thesis by simp
qed

text \<open>The double nearest to a given real, from its binade and its significand.\<close>

lemma round64_eval:
  assumes "- 1022 \<le> E" and "E \<le> 1023"
    and "E = - 1022 \<or> 2 powi E \<le> \<bar>x\<bar>" and "\<bar>x\<bar> < 2 powi (E + 1)"
    and "round_half_even (x / 2 powi (E - 52)) = n"
    and "\<bar>of_int n * 2 powi (E - 52)\<bar> < (2::real) powi 1024"
  shows "round64 x = Fin (of_int n * 2 powi (E - 52))"
proof -
  have "binade x = E"
    using assms(1-4) by (intro binade_eqI) simp_all
  then have "nearest x = of_int n * 2 powi (E - 52)"
    by (simp add: nearest_unfold assms(5))
  with assms(6) show ?thesis by (simp add: round64_def)
qed

section \<open>The operators on finite numbers\<close>

lemma Fin_minus: "Fin a - Fin b = round64 (a - b)"
  by (simp add: minus_jsnum_def)

lemma Fin_divide: "b \<noteq> 0 \<Longrightarrow> Fin a / Fin b = round64 (a / b)"
  by (simp add: divide_jsnum_def)

lemma Math_min_Fin: "Math_min (Fin a) (Fin b) = Fin (min a b)"
  by (simp add: Math_min_def min_def)

lemma Math_max_Fin: "Math_max (Fin a) (Fin b) = Fin (max a b)"
  by (simp add: Math_max_def max_def)

lemma round64_numeral:
  "(numeral k :: int) \<le> 2 ^ 53 \<Longrightarrow> round64 (numeral k) = Fin (numeral k)"
  using round64_int [of "numeral k"] by simp

lemma round64_one: "round64 1 = Fin 1"
  using round64_int [of 1] by simp

lemmas Fin_arith = Fin_minus Fin_divide Math_min_Fin Math_max_Fin round64_numeral round64_one

lemma js_input_sel [simp]:
  "numEmployees (js_input i) = Number (round64 (numEmployees_r i))"
  "avgAnnualSalary (js_input i) = Number (round64 (avgAnnualSalary_r i))"
  "annualRevenue (js_input i) = Number (round64 (annualRevenue_r i))"
  "employeesWhoLeft (js_input i) = Number (round64 (employeesWhoLeft_r i))"
  "avgExtraAbsenteeismDaysPerEmployee (js_input i)
     = Number (round64 (avgExtraAbsenteeismDaysPerEmployee_r i))"
  "engagementScore (js_input i) = Number (round64 (engagementScore_r i))"
  by (simp_all add: js_input_def)

lemmas calculateROI_locals =
  costPerReplacement_def totalTurnoverCost_val_def disengagementInfluenceFactor_def
  avgDailySalary_def productivityLossCost_def absenteeismCost_def
  totalDisengagementCost_val_def totalHiddenLoss_val_def
  improvedEngagement1Pt_def newDisengagementInfluenceFactor1Pt_def
  newProductivityLossCost1Pt_def newAbsenteeismCost1Pt_def newTotalDisengagementCost1Pt_def
  savings1Pt_def improvedEngagement2Pt_def newDisengagementInfluenceFactor2Pt_def
  newProductivityLossCost2Pt_def newAbsenteeismCost2Pt_def newTotalDisengagementCost2Pt_def
  savings2Pt_def potentialRevenueIncreaseMin_val_def potentialRevenueIncreaseMax_val_def

lemmas constants_defs =
  DISENGAGEMENT_PRODUCTIVITY_LOSS_FACTOR_def AVG_REPLACEMENT_COST_FACTOR_def
  WORKING_DAYS_PER_YEAR_def REVENUE_INCREASE_FACTOR_MIN_def REVENUE_INCREASE_FACTOR_MAX_def

section \<open>Roundings of the literals and at the concrete inputs\<close>

text \<open>
  Each lemma gives the double nearest to one real, from its binade and its significand;
  the reals are those that arise when the estimator runs on the inputs defined above.
\<close>

lemma rounding_0: "round64 (17 / 50) = Fin (6124895493223875 / 18014398509481984)"
  using round64_eval [of "- 2" "17 / 50" "6124895493223875"]
  by (simp add: round_half_even_def)

lemma rounding_1: "round64 (1 / 50) = Fin (5764607523034235 / 288230376151711744)"
  using round64_eval [of "- 6" "1 / 50" "5764607523034235"]
  by (simp add: round_half_even_def)

lemma rounding_2: "round64 (1 / 20) = Fin (3602879701896397 / 72057594037927936)"
  using round64_eval [of "- 5" "1 / 20" "7205759403792794"]
  by (simp add: round_half_even_def)

lemma rounding_3: "round64 (2 / 5) = Fin (3602879701896397 / 9007199254740992)"
  using round64_eval [of "- 2" "2 / 5" "7205759403792794"]
  by (simp add: round_half_even_def)

lemma rounding_4: "round64 (844424930131968046875 / 35184372088832) = Fin (24000000)"
  using round64_eval [of "24" "844424930131968046875 / 35184372088832" "6442450944000000"]
  by (simp add: round_half_even_def)

lemma rounding_5: "round64 (287104476244869140625 / 35184372088832) = Fin (8761733283840001 / 1073741824)"
  using round64_eval [of "22" "287104476244869140625 / 35184372088832" "8761733283840001"]
  by (simp add: round_half_even_def)

lemma rounding_6: "round64 (33776997205278721875 / 70368744177664) = Fin (480000)"
  using round64_eval [of "18" "33776997205278721875 / 70368744177664" "8246337208320000"]
  by (simp add: round_half_even_def)

lemma rounding_7: "round64 (9277129359360001 / 1073741824) = Fin (8640000)"
  using round64_eval [of "23" "9277129359360001 / 1073741824" "4638564679680000"]
  by (simp add: round_half_even_def)

lemma rounding_8: "round64 (3 / 10) = Fin (5404319552844595 / 18014398509481984)"
  using round64_eval [of "- 2" "3 / 10" "5404319552844595"]
  by (simp add: round_half_even_def)

lemma rounding_9: "round64 (1266637395197951953125 / 70368744177664) = Fin (18000000)"
  using round64_eval [of "24" "1266637395197951953125 / 70368744177664" "4831838208000000"]
  by (simp add: round_half_even_def)

lemma rounding_10: "round64 (861313428734607421875 / 140737488355328) = Fin (6120000)"
  using round64_eval [of "22" "861313428734607421875 / 140737488355328" "6571299962880000"]
  by (simp add: round_half_even_def)

lemma rounding_11: "round64 (50665495807918078125 / 140737488355328) = Fin (360000)"
  using round64_eval [of "18" "50665495807918078125 / 140737488355328" "6184752906240000"]
  by (simp add: round_half_even_def)

lemma rounding_12: "round64 (1 / 5) = Fin (3602879701896397 / 18014398509481984)"
  using round64_eval [of "- 3" "1 / 5" "7205759403792794"]
  by (simp add: round_half_even_def)

lemma rounding_13: "round64 (844424930131968046875 / 70368744177664) = Fin (12000000)"
  using round64_eval [of "23" "844424930131968046875 / 70368744177664" "6442450944000000"]
  by (simp add: round_half_even_def)

lemma rounding_14: "round64 (287104476244869140625 / 70368744177664) = Fin (8761733283840001 / 2147483648)"
  using round64_eval [of "21" "287104476244869140625 / 70368744177664" "8761733283840001"]
  by (simp add: round_half_even_def)

lemma rounding_15: "round64 (33776997205278721875 / 140737488355328) = Fin (240000)"
  using round64_eval [of "17" "33776997205278721875 / 140737488355328" "8246337208320000"]
  by (simp add: round_half_even_def)

lemma rounding_16: "round64 (9277129359360001 / 2147483648) = Fin (4320000)"
  using round64_eval [of "22" "9277129359360001 / 2147483648" "4638564679680000"]
  by (simp add: round_half_even_def)

lemma rounding_17: "round64 (2251799813685248046875 / 2251799813685248) = Fin (1000000)"
  using round64_eval [of "19" "2251799813685248046875 / 2251799813685248" "8589934592000000"]
  by (simp add: round_half_even_def)

lemma rounding_18: "round64 (7 / 10) = Fin (3152519739159347 / 4503599627370496)"
  using round64_eval [of "- 1" "7 / 10" "6305039478318694"]
  by (simp add: round_half_even_def)

lemma rounding_19: "round64 (49258120924364796875 / 70368744177664) = Fin (700000)"
  using round64_eval [of "19" "49258120924364796875 / 70368744177664" "6012954214400000"]
  by (simp add: round_half_even_def)

lemma rounding_20: "round64 (1407374883553280078125 / 562949953421312) = Fin (2500000)"
  using round64_eval [of "21" "1407374883553280078125 / 562949953421312" "5368709120000000"]
  by (simp add: round_half_even_def)

lemma rounding_21: "round64 (4 / 5) = Fin (3602879701896397 / 4503599627370496)"
  using round64_eval [of "- 1" "4 / 5" "7205759403792794"]
  by (simp add: round_half_even_def)

lemma rounding_22: "round64 (281474976710656015625 / 140737488355328) = Fin (2000000)"
  using round64_eval [of "20" "281474976710656015625 / 140737488355328" "8589934592000000"]
  by (simp add: round_half_even_def)

lemma rounding_23: "round64 (11 / 10) = Fin (2476979795053773 / 2251799813685248)"
  using round64_eval [of "0" "11 / 10" "4953959590107546"]
  by (simp add: round_half_even_def)

lemma rounding_24: "round64 (38702809297715203125 / 35184372088832) = Fin (1100000)"
  using round64_eval [of "20" "38702809297715203125 / 35184372088832" "4724464025600000"]
  by (simp add: round_half_even_def)

lemma rounding_25: "round64 (6 / 5) = Fin (5404319552844595 / 4503599627370496)"
  using round64_eval [of "0" "6 / 5" "5404319552844595"]
  by (simp add: round_half_even_def)

lemma rounding_26: "round64 (422212465065983984375 / 140737488355328) = Fin (3000000)"
  using round64_eval [of "21" "422212465065983984375 / 140737488355328" "6442450944000000"]
  by (simp add: round_half_even_def)

lemma rounding_27: "round64 (6755399441055744140625 / 4503599627370496) = Fin (1500000)"
  using round64_eval [of "20" "6755399441055744140625 / 4503599627370496" "6442450944000000"]
  by (simp add: round_half_even_def)

lemma rounding_28: "round64 (116108427893145609375 / 70368744177664) = Fin (7086696038400001 / 4294967296)"
  using round64_eval [of "20" "116108427893145609375 / 70368744177664" "7086696038400001"]
  by (simp add: round_half_even_def)

lemma rounding_29: "round64 (4222124650659840234375 / 1125899906842624) = Fin (3750000)"
  using round64_eval [of "21" "4222124650659840234375 / 1125899906842624" "8053063680000000"]
  by (simp add: round_half_even_def)

lemma rounding_30: "round64 (1266637395197951953125 / 281474976710656) = Fin (4500000)"
  using round64_eval [of "22" "1266637395197951953125 / 281474976710656" "4831838208000000"]
  by (simp add: round_half_even_def)

lemma rounding_31: "round64 (89884656743115795386465259539451236680898848947115328636715040578866337902750481566354238661203768010560056939935696678829394884407208311246423715319737062188883946712432742638151109800623047059726541476042502884419075341171231440736956555270413618581675255342293149119973622969239858152417678164812112068608) = Fin (89884656743115795386465259539451236680898848947115328636715040578866337902750481566354238661203768010560056939935696678829394884407208311246423715319737062188883946712432742638151109800623047059726541476042502884419075341171231440736956555270413618581675255342293149119973622969239858152417678164812112068608)"
  using round64_eval [of "1023" "89884656743115795386465259539451236680898848947115328636715040578866337902750481566354238661203768010560056939935696678829394884407208311246423715319737062188883946712432742638151109800623047059726541476042502884419075341171231440736956555270413618581675255342293149119973622969239858152417678164812112068608" "4503599627370496"]
  by (simp add: round_half_even_def)

lemma rounding_32: "round64 (112355820928894744233081574424314045851123561183894160795893800723582922378438101957942798326504710013200071174919620848536743605509010389058029644149671327736104933390540928297688887250778808824658176845053128605523844176464039300921195694088017023227094069177866436399967028711549822690522097706015140085760) = Fin (112355820928894744233081574424314045851123561183894160795893800723582922378438101957942798326504710013200071174919620848536743605509010389058029644149671327736104933390540928297688887250778808824658176845053128605523844176464039300921195694088017023227094069177866436399967028711549822690522097706015140085760)"
  using round64_eval [of "1023" "112355820928894744233081574424314045851123561183894160795893800723582922378438101957942798326504710013200071174919620848536743605509010389058029644149671327736104933390540928297688887250778808824658176845053128605523844176464039300921195694088017023227094069177866436399967028711549822690522097706015140085760" "5629499534213120"]
  by (simp add: round_half_even_def)

lemma rounding_33: "round64 (1 / 2) = Fin (1 / 2)"
  using round64_eval [of "- 1" "1 / 2" "4503599627370496"]
  by (simp add: round_half_even_def)

lemma rounding_34: "round64 (44942328371557897693232629769725618340449424473557664318357520289433168951375240783177119330601884005280028469967848339414697442203604155623211857659868531094441973356216371319075554900311523529863270738021251442209537670585615720368478277635206809290837627671146574559986811484619929076208839082406056034304 / 125) = Fin (359538626972463189030262198913004240434993069676605937299802388948431132245554085404961549153430318735832598357126665800351755203350690409882337317754924476527430030417848796752625712769063475179672621320531213472626389156724640737938365427784918432659908278049338187131597892661044588768515069773038485504)"
  using round64_eval [of "1015" "44942328371557897693232629769725618340449424473557664318357520289433168951375240783177119330601884005280028469967848339414697442203604155623211857659868531094441973356216371319075554900311523529863270738021251442209537670585615720368478277635206809290837627671146574559986811484619929076208839082406056034304 / 125" "4611686018427388"]
  by (simp add: round_half_even_def)

lemma rounding_35: "round64 (5764607523034235 / 288230376151711744) = Fin (5764607523034235 / 288230376151711744)"
  using round64_eval [of "- 6" "5764607523034235 / 288230376151711744" "5764607523034235"]
  by (simp add: round_half_even_def)

lemma rounding_36: "round64 (3 / 5) = Fin (5404319552844595 / 9007199254740992)"
  using round64_eval [of "- 1" "3 / 5" "5404319552844595"]
  by (simp add: round_half_even_def)

lemma rounding_37: "round64 (31153781151208965266779819709825 / 2596148429267413814265248164610048) = Fin (3458764513820541 / 288230376151711744)"
  using round64_eval [of "- 7" "31153781151208965266779819709825 / 2596148429267413814265248164610048" "6917529027641082"]
  by (simp add: round_half_even_def)

lemma rounding_38: "round64 (3602879701896397 / 72057594037927936) = Fin (3602879701896397 / 72057594037927936)"
  using round64_eval [of "- 5" "3602879701896397 / 72057594037927936" "7205759403792794"]
  by (simp add: round_half_even_def)

lemma rounding_39: "round64 (11358149378044935347338468172759 / 324518553658426726783156020576256) = Fin (5044031582654955 / 144115188075855872)"
  using round64_eval [of "- 5" "11358149378044935347338468172759 / 324518553658426726783156020576256" "5044031582654955"]
  by (simp add: round_half_even_def)

lemma rounding_40: "round64 (14278816360970777428617944918655 / 649037107316853453566312041152512) = Fin (6341068275337659 / 288230376151711744)"
  using round64_eval [of "- 6" "14278816360970777428617944918655 / 649037107316853453566312041152512" "6341068275337659"]
  by (simp add: round_half_even_def)

lemma rounding_41: "round64 (19471113219505603967277331424215 / 324518553658426726783156020576256) = Fin (1080863910568919 / 18014398509481984)"
  using round64_eval [of "- 5" "19471113219505603967277331424215 / 324518553658426726783156020576256" "8646911284551352"]
  by (simp add: round_half_even_def)

lemma rounding_42: "round64 (1 / 202402253307310618352495346718917307049556649764142118356901358027430339567995346891960383701437124495187077864316811911389808737385793476867013399940738509921517424276566361364466907742093216341239767678472745068562007483424692698618103355649159556340810056512358769552333414615230502532186327508646006263307707741093494784) = Fin (1 / 202402253307310618352495346718917307049556649764142118356901358027430339567995346891960383701437124495187077864316811911389808737385793476867013399940738509921517424276566361364466907742093216341239767678472745068562007483424692698618103355649159556340810056512358769552333414615230502532186327508646006263307707741093494784)"
  using round64_eval [of "- 1022" "1 / 202402253307310618352495346718917307049556649764142118356901358027430339567995346891960383701437124495187077864316811911389808737385793476867013399940738509921517424276566361364466907742093216341239767678472745068562007483424692698618103355649159556340810056512358769552333414615230502532186327508646006263307707741093494784" "1"]
  by (simp add: round_half_even_def)

lemma rounding_43: "round64 (5764607523034235 / 58338477604720181915314096183019377526412786239090727853961370058936784549800833055292953432233783523860783106683262869400462158541713858270963303461275697408737633677940961888417990872398332976924946605817630693519704607081254671658561832577037833065891115159868968841194918254390384672272725781030585515463396294754824202789953344735543296) = Fin (0)"
  using round64_eval [of "- 1022" "5764607523034235 / 58338477604720181915314096183019377526412786239090727853961370058936784549800833055292953432233783523860783106683262869400462158541713858270963303461275697408737633677940961888417990872398332976924946605817630693519704607081254671658561832577037833065891115159868968841194918254390384672272725781030585515463396294754824202789953344735543296" "0"]
  by (simp add: round_half_even_def)

lemma rounding_44: "round64 (3602879701896397 / 14584619401180045478828524045754844381603196559772681963490342514734196137450208263823238358058445880965195776670815717350115539635428464567740825865318924352184408419485240472104497718099583244231236651454407673379926151770313667914640458144259458266472778789967242210298729563597596168068181445257646378865849073688706050697488336183885824) = Fin (0)"
  using round64_eval [of "- 1022" "3602879701896397 / 14584619401180045478828524045754844381603196559772681963490342514734196137450208263823238358058445880965195776670815717350115539635428464567740825865318924352184408419485240472104497718099583244231236651454407673379926151770313667914640458144259458266472778789967242210298729563597596168068181445257646378865849073688706050697488336183885824" "0"]
  by (simp add: round_half_even_def)

lemma rounding_45: "round64 (359538626972463181545861038157804946723595395788461314546860162315465351611001926265416954644815072042240227759742786715317579537628833244985694861278948248755535786849730970552604439202492188238906165904170011537676301364684925762947826221081654474326701021369172596479894491876959432609670712659248448274432) = PInf"
  by (rule round64_overflow) simp

lemmas roundings =
  rounding_0 rounding_1 rounding_2 rounding_3 rounding_4 rounding_5 rounding_6 rounding_7 rounding_8 rounding_9 rounding_10 rounding_11 rounding_12 rounding_13 rounding_14 rounding_15 rounding_16 rounding_17 rounding_18 rounding_19 rounding_20 rounding_21 rounding_22 rounding_23 rounding_24 rounding_25 rounding_26 rounding_27 rounding_28 rounding_29 rounding_30 rounding_31 rounding_32 rounding_33 rounding_34 rounding_35 rounding_36 rounding_37 rounding_38 rounding_39 rounding_40 rounding_41 rounding_42 rounding_43 rounding_44 rounding_45

section \<open>Finite results have finite operands\<close>

lemma times_FinD: "x * y = Fin z \<Longrightarrow> \<exists>a b. x = Fin a \<and> y = Fin b"
  by (cases x; cases y) (simp_all add: signed_inf_def split: if_splits)

lemma plus_FinD: "x + y = Fin z \<Longrightarrow> \<exists>a b. x = Fin a \<and> y = Fin b"
  by (cases x; cases y) simp_all

lemma divide_FinD: "x / Fin c = Fin z \<Longrightarrow> \<exists>a. x = Fin a"
  by (cases x) (simp_all add: divide_jsnum_def split: if_splits)

lemma is_finite_iff: "is_finite x = (\<exists>a. x = Fin a)"
  by (cases x) simp_all

section \<open>Monotonicity of the rounded operations\<close>

lemma round64_Fin_nonneg: "round64 x = Fin y \<Longrightarrow> 0 \<le> x \<Longrightarrow> 0 \<le> y"
  using round64_nonneg [of x] by simp

lemma round64_below:
  assumes "round64 u = Fin z" and "0 \<le> x" and "x \<le> u"
  shows "\<exists>w. round64 x = Fin w \<and> 0 \<le> w \<and> w \<le> z"
proof -
  from round64_mono [OF assms(2,3)] assms(1) have le: "round64 x \<le> Fin z" by simp
  from round64_nonneg [OF assms(2)] have ge: "Fin 0 \<le> round64 x" .
  from le ge obtain w where "round64 x = Fin w"
    by (cases "round64 x") simp_all
  with le ge show ?thesis by simp
qed

lemma times_below:
  assumes "Fin c * Fin d = Fin z" and "0 \<le> a" and "a \<le> c" and "0 \<le> b" and "b \<le> d"
  shows "\<exists>w. Fin a * Fin b = Fin w \<and> 0 \<le> w \<and> w \<le> z"
proof -
  from assms(1) have "round64 (c * d) = Fin z" by simp
  moreover from assms(2-5) have "0 \<le> a * b" and "a * b \<le> c * d"
    by (simp_all add: mult_mono)
  ultimately have "\<exists>w. round64 (a * b) = Fin w \<and> 0 \<le> w \<and> w \<le> z"
    by (rule round64_below)
  then show ?thesis by simp
qed

lemma plus_below:
  assumes "Fin c + Fin d = Fin z" and "0 \<le> a" and "a \<le> c" and "0 \<le> b" and "b \<le> d"
  shows "\<exists>w. Fin a + Fin b = Fin w \<and> 0 \<le> w \<and> w \<le> z"
proof -
  from assms(1) have "round64 (c + d) = Fin z" by simp
  moreover from assms(2-5) have "0 \<le> a + b" and "a + b \<le> c + d"
    by simp_all
  ultimately have "\<exists>w. round64 (a + b) = Fin w \<and> 0 \<le> w \<and> w \<le> z"
    by (rule round64_below)
  then show ?thesis by simp
qed

lemma times_Fin_nonneg: "Fin a * Fin b = Fin w \<Longrightarrow> 0 \<le> a \<Longrightarrow> 0 \<le> b \<Longrightarrow> 0 \<le> w"
  using round64_Fin_nonneg [of "a * b" w] by simp

lemma times_Fin_double: "Fin a * Fin b = Fin w \<Longrightarrow> round64 w = Fin w"
  using round64_idem [of "a * b" w] by simp

lemma plus_Fin_double: "Fin a + Fin b = Fin w \<Longrightarrow> round64 w = Fin w"
  using round64_idem [of "a + b" w] by simp

lemma plus_result_double:
  assumes "x + y = Fin z"
  shows "round64 z = Fin z"
proof -
  from plus_FinD [OF assms] obtain a b where "x = Fin a" "y = Fin b" by blast
  with assms show ?thesis by (simp add: plus_Fin_double)
qed

lemma times_result_double:
  assumes "x * y = Fin z"
  shows "round64 z = Fin z"
proof -
  from times_FinD [OF assms] obtain a b where "x = Fin a" "y = Fin b" by blast
  with assms show ?thesis by (simp add: times_Fin_double)
qed

text \<open>The difference of a double and a smaller number, and the order of two such differences.\<close>

lemma minus_below:
  assumes "round64 z = Fin z" and "0 \<le> b" and "b \<le> b'" and "b' \<le> z"
  shows "\<exists>w w'. Fin z - Fin b' = Fin w' \<and> Fin z - Fin b = Fin w \<and> 0 \<le> w' \<and> w' \<le> w"
proof -
  from assms have "0 \<le> z - b" and "z - b \<le> z" by simp_all
  with assms(1) obtain w where w: "round64 (z - b) = Fin w" "0 \<le> w"
    using round64_below by blast
  from assms have "0 \<le> z - b'" and "z - b' \<le> z - b" by simp_all
  with w(1) obtain w' where "round64 (z - b') = Fin w'" "0 \<le> w'" "w' \<le> w"
    using round64_below by blast
  with w show ?thesis by (simp add: Fin_minus)
qed

text \<open>The disengagement influence factor at a score between 0 and 10, and at a higher one.\<close>

lemma factor_antimono:
  assumes "0 \<le> m" and "m \<le> m'" and "m' \<le> 10"
  shows "\<exists>v v'. (Fin 10 - Fin m) / Fin 10 = Fin v
    \<and> (Fin 10 - Fin m') / Fin 10 = Fin v' \<and> 0 \<le> v' \<and> v' \<le> v"
proof -
  have ten: "round64 10 = Fin 10" by (simp add: round64_numeral)
  from assms have "0 \<le> 10 - m" "10 - m \<le> 10" by simp_all
  with ten obtain u where u: "round64 (10 - m) = Fin u" "0 \<le> u"
    using round64_below by blast
  from assms have "0 \<le> 10 - m'" "10 - m' \<le> 10 - m" by simp_all
  with u(1) obtain u' where u': "round64 (10 - m') = Fin u'" "0 \<le> u'" "u' \<le> u"
    using round64_below by blast
  have one: "round64 (10 / 10) = Fin 1" by (simp add: round64_one)
  from u(2) have "0 \<le> u / 10" by simp
  have "u \<le> 10"
    using round64_mono [of "10 - m" 10] assms ten u(1) by simp
  then have "u / 10 \<le> 10 / 10" by simp
  with one \<open>0 \<le> u / 10\<close> obtain v where v: "round64 (u / 10) = Fin v" "0 \<le> v"
    using round64_below by blast
  from u' have "0 \<le> u' / 10" "u' / 10 \<le> u / 10" by simp_all
  with v(1) obtain v' where "round64 (u' / 10) = Fin v'" "0 \<le> v'" "v' \<le> v"
    using round64_below by blast
  with u u' v show ?thesis by (simp add: Fin_minus Fin_divide)
qed

section \<open>The disengagement cost falls as the score rises\<close>

lemma literal_0_34: "round64 0.34 = Fin (6124895493223875 / 2 ^ 54)"
  using rounding_0 by simp

lemma steps_cost_antimono:
  assumes n: "ToNumber (numEmployees data) = Fin n" "0 \<le> n"
    and s: "ToNumber (avgAnnualSalary data) = Fin s" "0 \<le> s"
    and a: "ToNumber (avgExtraAbsenteeismDaysPerEmployee data) = Fin a" "0 \<le> a"
    and m: "0 \<le> m" "m \<le> m'" "m' \<le> 10"
    and fin: "steps_disengagementCost data (Fin m) = Fin z"
  shows "\<exists>z'. steps_disengagementCost data (Fin m') = Fin z' \<and> 0 \<le> z' \<and> z' \<le> z"
proof -
  from factor_antimono [OF m] obtain v v' where v: "(Fin 10 - Fin m) / Fin 10 = Fin v"
    and v': "(Fin 10 - Fin m') / Fin 10 = Fin v'" and vv: "0 \<le> v'" "v' \<le> v"
    by blast
  let ?c = "6124895493223875 / 2 ^ 54 :: real"
  have c: "0 \<le> ?c" by simp
  from fin have sum: "Fin n * Fin s * Fin v * Fin ?c + Fin n * Fin a * (Fin s / Fin 250) * Fin v = Fin z"
    by (simp only: steps_disengagementCost_def n(1) s(1) a(1) v literal_0_34)
  from plus_FinD [OF sum] obtain P A
    where P: "Fin n * Fin s * Fin v * Fin ?c = Fin P"
      and A: "Fin n * Fin a * (Fin s / Fin 250) * Fin v = Fin A"
    by blast
  from times_FinD [OF P] obtain p where p: "Fin n * Fin s * Fin v = Fin p" by blast
  from times_FinD [OF p] obtain ns where ns: "Fin n * Fin s = Fin ns" by blast
  from times_FinD [OF A] obtain q where q: "Fin n * Fin a * (Fin s / Fin 250) = Fin q" by blast
  from times_FinD [OF q] obtain na d where na: "Fin n * Fin a = Fin na"
    and d: "Fin s / Fin 250 = Fin d" by blast
  from ns n(2) s(2) have ns0: "0 \<le> ns" by (rule times_Fin_nonneg)
  from na n(2) a(2) have na0: "0 \<le> na" by (rule times_Fin_nonneg)
  from d s(2) have d0: "0 \<le> d"
    using round64_Fin_nonneg [of "s / 250" d] by (simp add: Fin_divide)
  from q na d na0 d0 have q0: "0 \<le> q"
    using times_Fin_nonneg [of na d q] by simp
  from p ns have p': "Fin ns * Fin v = Fin p" by simp
  from times_below [OF p' ns0 order_refl vv]
  obtain p1 where p1: "Fin ns * Fin v' = Fin p1" "0 \<le> p1" "p1 \<le> p"
    by blast
  from P p have P': "Fin p * Fin ?c = Fin P" by simp
  from times_below [OF P' p1(2,3) c order_refl]
  obtain P1 where P1: "Fin p1 * Fin ?c = Fin P1" "0 \<le> P1" "P1 \<le> P"
    by blast
  from A q have A': "Fin q * Fin v = Fin A" by simp
  from times_below [OF A' q0 order_refl vv]
  obtain A1 where A1: "Fin q * Fin v' = Fin A1" "0 \<le> A1" "A1 \<le> A"
    by blast
  from sum P A have sum': "Fin P + Fin A = Fin z" by simp
  from plus_below [OF sum' P1(2,3) A1(2,3)]
  obtain z' where z': "Fin P1 + Fin A1 = Fin z'" "0 \<le> z'" "z' \<le> z"
    by blast
  have "steps_disengagementCost data (Fin m') = Fin z'"
    by (simp only: steps_disengagementCost_def n(1) s(1) a(1) v' literal_0_34 ns p1(1) P1(1)
        q A1(1) z'(1))
  with z' show ?thesis by simp
qed

lemma steps_cost_FinD:
  assumes "steps_disengagementCost data sc = Fin z"
  shows "\<exists>n s a. ToNumber (numEmployees data) = Fin n \<and> ToNumber (avgAnnualSalary data) = Fin s
           \<and> ToNumber (avgExtraAbsenteeismDaysPerEmployee data) = Fin a"
proof -
  from assms obtain P A
    where P: "ToNumber (numEmployees data) * ToNumber (avgAnnualSalary data)
                * ((Fin 10 - sc) / Fin 10) * round64 0.34 = Fin P"
      and A: "ToNumber (numEmployees data) * ToNumber (avgExtraAbsenteeismDaysPerEmployee data)
                * (ToNumber (avgAnnualSalary data) / Fin 250) * ((Fin 10 - sc) / Fin 10) = Fin A"
    unfolding steps_disengagementCost_def by (blast dest: plus_FinD)
  from P obtain n s where "ToNumber (numEmployees data) = Fin n"
    "ToNumber (avgAnnualSalary data) = Fin s"
    by (blast dest: times_FinD)
  moreover from A obtain a where "ToNumber (avgExtraAbsenteeismDaysPerEmployee data) = Fin a"
    by (blast dest: times_FinD)
  ultimately show ?thesis by blast
qed

section \<open>The code's costs as the steps' cost function\<close>

lemma totalDisengagementCost_steps:
  "totalDisengagementCost_val data = steps_disengagementCost data (ToNumber (engagementScore data))"
  by (simp add: totalDisengagementCost_val_def productivityLossCost_def absenteeismCost_def
      disengagementInfluenceFactor_def avgDailySalary_def constants_defs steps_disengagementCost_def)

lemma newTotalDisengagementCost1Pt_steps:
  "newTotalDisengagementCost1Pt data = steps_disengagementCost data (improvedEngagement1Pt data)"
  by (simp add: newTotalDisengagementCost1Pt_def newProductivityLossCost1Pt_def
      newAbsenteeismCost1Pt_def newDisengagementInfluenceFactor1Pt_def avgDailySalary_def
      constants_defs steps_disengagementCost_def)

lemma newTotalDisengagementCost2Pt_steps:
  "newTotalDisengagementCost2Pt data = steps_disengagementCost data (improvedEngagement2Pt data)"
  by (simp add: newTotalDisengagementCost2Pt_def newProductivityLossCost2Pt_def
      newAbsenteeismCost2Pt_def newDisengagementInfluenceFactor2Pt_def avgDailySalary_def
      constants_defs steps_disengagementCost_def)

lemma calculateROI_steps: "calculateROI data = steps_compute data"
  by (simp add: calculateROI_def steps_compute_def steps_savings_def
      totalDisengagementCost_steps newTotalDisengagementCost1Pt_steps
      newTotalDisengagementCost2Pt_steps savings1Pt_def savings2Pt_def
      improvedEngagement1Pt_def improvedEngagement2Pt_def totalHiddenLoss_val_def
      totalTurnoverCost_val_def costPerReplacement_def absenteeismCost_def
      disengagementInfluenceFactor_def avgDailySalary_def
      potentialRevenueIncreaseMin_val_def potentialRevenueIncreaseMax_val_def constants_defs)

section \<open>Valid inputs as doubles\<close>

lemma valid_score:
  assumes "valid_input i"
  shows "\<exists>e. round64 (engagementScore_r i) = Fin e \<and> 1 \<le> e \<and> e \<le> 10
    \<and> round64 e = Fin e"
proof -
  have "round64 1 = Fin 1" "round64 10 = Fin 10"
    by (simp_all add: round64_one round64_numeral)
  moreover from assms have "1 \<le> engagementScore_r i" "engagementScore_r i \<le> 10"
    by (simp_all add: valid_input_def)
  ultimately show ?thesis
    using round64_between [of 1 10 "engagementScore_r i"] by auto
qed

text \<open>The two improved scores: capped at 10, above the score, and in order.\<close>

lemma improved_scores:
  assumes "round64 e = Fin e" and "1 \<le> e" and "e \<le> 10"
  shows "\<exists>m1 m2. Math_min (Fin 10) (Fin e + Fin 1) = Fin m1
    \<and> Math_min (Fin 10) (Fin e + Fin 2) = Fin m2 \<and> e \<le> m1 \<and> m1 \<le> m2 \<and> m2 \<le> 10"
proof -
  have d12: "round64 12 = Fin 12" by (simp add: round64_numeral)
  from assms obtain f1 where f1: "round64 (e + 1) = Fin f1" "e \<le> f1"
    using round64_between [of e 12 "e + 1"] d12 by auto
  from assms obtain f2 where f2: "round64 (e + 2) = Fin f2"
    using round64_between [of e 12 "e + 2"] d12 by auto
  from assms have "round64 (e + 1) \<le> round64 (e + 2)"
    by (intro round64_mono) simp_all
  with f1 f2 have "f1 \<le> f2" by simp
  with f1 f2 assms show ?thesis
    by (simp add: Math_min_Fin min_def)
qed

section \<open>The potential savings when the disengagement cost is finite\<close>

lemma savings_finite:
  assumes v: "valid_input i" and fin: "totalDisengagementCost_val (js_input i) = Fin z"
  shows "\<exists>w1 w2. Math_max (Fin 0) (savings1Pt (js_input i)) = Fin w1
    \<and> Math_max (Fin 0) (savings2Pt (js_input i)) = Fin w2 \<and> 0 \<le> w1 \<and> w1 \<le> w2"
proof -
  let ?d = "js_input i"
  from valid_score [OF v]
  obtain e where e: "round64 (engagementScore_r i) = Fin e" "1 \<le> e" "e \<le> 10"
    "round64 e = Fin e"
    by blast
  from fin have D: "steps_disengagementCost ?d (Fin e) = Fin z"
    by (simp add: totalDisengagementCost_steps e(1))
  from steps_cost_FinD [OF D] obtain n s a
    where n: "ToNumber (numEmployees ?d) = Fin n"
      and s: "ToNumber (avgAnnualSalary ?d) = Fin s"
      and a: "ToNumber (avgExtraAbsenteeismDaysPerEmployee ?d) = Fin a"
    by blast
  from v have "0 \<le> numEmployees_r i" "0 \<le> avgAnnualSalary_r i"
    "0 \<le> avgExtraAbsenteeismDaysPerEmployee_r i"
    by (simp_all add: valid_input_def)
  with n s a have nn: "0 \<le> n" "0 \<le> s" "0 \<le> a"
    using round64_Fin_nonneg by simp_all
  from improved_scores [OF e(4,2,3)]
  obtain m1 m2 where m1: "Math_min (Fin 10) (Fin e + Fin 1) = Fin m1"
    and m2: "Math_min (Fin 10) (Fin e + Fin 2) = Fin m2"
    and mm: "e \<le> m1" "m1 \<le> m2" "m2 \<le> 10"
    by blast
  from e mm have e0: "0 \<le> e" and m10: "0 \<le> m1" and m1_10: "m1 \<le> 10" by simp_all
  from steps_cost_antimono [OF n nn(1) s nn(2) a nn(3) e0 mm(1) m1_10 D]
  obtain z1 where z1: "steps_disengagementCost ?d (Fin m1) = Fin z1" "0 \<le> z1" "z1 \<le> z"
    by blast
  from steps_cost_antimono [OF n nn(1) s nn(2) a nn(3) m10 mm(2) mm(3) z1(1)]
  obtain z2 where z2: "steps_disengagementCost ?d (Fin m2) = Fin z2" "0 \<le> z2" "z2 \<le> z1"
    by blast
  from D have dz: "round64 z = Fin z"
    unfolding steps_disengagementCost_def by (rule plus_result_double)
  from minus_below [OF dz z2(2,3) z1(3)]
  obtain w1 w2 where w: "Fin z - Fin z1 = Fin w1" "Fin z - Fin z2 = Fin w2" "0 \<le> w1" "w1 \<le> w2"
    by blast
  have i1: "improvedEngagement1Pt ?d = Fin m1" and i2: "improvedEngagement2Pt ?d = Fin m2"
    by (simp_all only: improvedEngagement1Pt_def improvedEngagement2Pt_def js_input_sel
        ToNumber.simps e(1) m1 m2)
  have "savings1Pt ?d = Fin w1" "savings2Pt ?d = Fin w2"
    by (simp_all only: savings1Pt_def savings2Pt_def fin newTotalDisengagementCost1Pt_steps
        newTotalDisengagementCost2Pt_steps i1 i2 z1(1) z2(1) w(1,2))
  with w(3,4) show ?thesis
    by (simp add: Math_max_Fin max_def)
qed

section \<open>The revenue increases\<close>

lemma literal_0_02: "round64 0.02 = Fin (5764607523034235 / 2 ^ 58)"
  using rounding_1 by simp

lemma literal_0_05: "round64 0.05 = Fin (3602879701896397 / 2 ^ 56)"
  using rounding_2 by simp

lemma round64_le_PInf: "0 \<le> t \<Longrightarrow> round64 t \<le> PInf"
  using round64_nn_cases [of t] by auto

lemma times_mono_nn:
  assumes "Fin 0 \<le> X" and "X \<le> Y" and "0 < g" and "g \<le> g'"
  shows "X * Fin g \<le> Y * Fin g' \<and> Fin 0 \<le> X * Fin g"
proof (cases X)
  case (Fin x)
  with assms(1) have x: "0 \<le> x" by simp
  with assms(3) have xg: "0 \<le> x * g" by simp
  show ?thesis
  proof (cases Y)
    case (Fin y)
    with \<open>X = Fin x\<close> assms(2) have "x \<le> y" by simp
    with x assms(3,4) have "x * g \<le> y * g'" by (intro mult_mono) simp_all
    with xg \<open>X = Fin x\<close> Fin show ?thesis
      by (simp add: round64_mono round64_nonneg)
  next
    case PInf
    with assms(3,4) \<open>X = Fin x\<close> xg show ?thesis
      by (simp add: signed_inf_def round64_le_PInf round64_nonneg)
  next
    case NaN
    with assms(2) show ?thesis by simp
  next
    case NInf
    with assms(2) \<open>X = Fin x\<close> show ?thesis by simp
  qed
next
  case PInf
  with assms(2) have "Y = PInf" by (cases Y) simp_all
  with PInf assms(3,4) show ?thesis by (simp add: signed_inf_def)
next
  case NaN
  with assms(1) show ?thesis by simp
next
  case NInf
  with assms(1) show ?thesis by simp
qed

lemma nn_refl: "Fin 0 \<le> X \<Longrightarrow> X \<le> X"
  by (cases X) simp_all

text \<open>The two quotients \<open>(score + 1) / 10\<close> and \<open>(score + 2) / 10\<close> of a valid input.\<close>

lemma revenue_quotients:
  assumes "valid_input i"
  shows "\<exists>g1 g2. (round64 (engagementScore_r i) + Fin 1) / Fin 10 = Fin g1
           \<and> (round64 (engagementScore_r i) + Fin 2) / Fin 10 = Fin g2 \<and> 0 < g1 \<and> g1 \<le> g2"
proof -
  from valid_score [OF assms]
  obtain e where e: "round64 (engagementScore_r i) = Fin e" "1 \<le> e" "e \<le> 10" by blast
  have d: "round64 2 = Fin 2" "round64 12 = Fin 12"
    by (simp_all add: round64_numeral)
  from e obtain f1 where f1: "round64 (e + 1) = Fin f1" "2 \<le> f1" "f1 \<le> 12"
    using round64_between [of 2 12 "e + 1"] d by auto
  from e obtain f2 where f2: "round64 (e + 2) = Fin f2" "2 \<le> f2" "f2 \<le> 12"
    using round64_between [of 2 12 "e + 2"] d by auto
  from e have "round64 (e + 1) \<le> round64 (e + 2)"
    by (intro round64_mono) simp_all
  with f1 f2 have ff: "f1 \<le> f2" by simp
  have eighth: "round64 (1 / 8) = Fin (1 / 8)"
    using round64_grid [of "- 3" "2 ^ 52" "1 / 8"] by simp
  from f1 obtain g1 where g1: "round64 (f1 / 10) = Fin g1" "1 / 8 \<le> g1"
    using round64_between [of "1 / 8" 2 "f1 / 10"] eighth d by auto
  from f2 obtain g2 where g2: "round64 (f2 / 10) = Fin g2"
    using round64_between [of "1 / 8" 2 "f2 / 10"] eighth d by auto
  from f1 ff have "round64 (f1 / 10) \<le> round64 (f2 / 10)"
    by (intro round64_mono) simp_all
  with g1 g2 have "g1 \<le> g2" by simp
  with e f1 f2 g1 g2 show ?thesis
    by (simp add: Fin_divide)
qed

lemma revenue_ordered:
  assumes "valid_input i"
  shows "potentialRevenueIncreaseMin_val (js_input i) \<le> potentialRevenueIncreaseMax_val (js_input i)
         \<and> Fin 0 \<le> potentialRevenueIncreaseMin_val (js_input i)"
proof -
  from revenue_quotients [OF assms]
  obtain g1 g2 where g: "(round64 (engagementScore_r i) + Fin 1) / Fin 10 = Fin g1"
    "(round64 (engagementScore_r i) + Fin 2) / Fin 10 = Fin g2" "0 < g1" "g1 \<le> g2"
    by blast
  let ?r = "round64 (annualRevenue_r i)"
  from assms have "0 \<le> annualRevenue_r i" by (simp add: valid_input_def)
  then have r: "Fin 0 \<le> ?r" by (rule round64_nonneg)
  have c: "(0::real) < 5764607523034235 / 2 ^ 58"
    "(5764607523034235 / 2 ^ 58 :: real) \<le> 3602879701896397 / 2 ^ 56"
    by simp_all
  from times_mono_nn [OF r nn_refl [OF r] c]
  have 1: "?r * Fin (5764607523034235 / 2 ^ 58) \<le> ?r * Fin (3602879701896397 / 2 ^ 56)"
    and 2: "Fin 0 \<le> ?r * Fin (5764607523034235 / 2 ^ 58)"
    by simp_all
  from times_mono_nn [OF 2 1 g(3,4)] show ?thesis
    by (simp only: potentialRevenueIncreaseMin_val_def potentialRevenueIncreaseMax_val_def
        js_input_sel ToNumber.simps REVENUE_INCREASE_FACTOR_MIN_def
        REVENUE_INCREASE_FACTOR_MAX_def literal_0_02 literal_0_05 g(1,2))
qed

section \<open>A score of 10\<close>






section \<open>The estimator at the concrete inputs\<close>

lemmas evaluation =
  calculateROI_def calculateROI_locals constants_defs Fin_arith roundings

lemma example_result:
  "calculateROI (js_input example_input) =
     \<lparr> totalTurnoverCost = Fin 7500000, totalDisengagementCost = Fin 8640000,
       totalAbsenteeismCost = Fin 480000, totalHiddenLoss = Fin 16140000,
       potentialSavingsMin = Fin 2160000, potentialSavingsMax = Fin 4320000,
       potentialRevenueIncreaseMin = Fin 700000, potentialRevenueIncreaseMax = Fin 2000000 \<rparr>"
  by (simp add: evaluation example_input_def)

lemma example_locals:
  "disengagementInfluenceFactor (js_input example_input) = Fin (3602879701896397 / 2 ^ 53)"
  "avgDailySalary (js_input example_input) = Fin 2400"
  "productivityLossCost (js_input example_input) = Fin (8160000 + 1 / 2 ^ 30)"
  "absenteeismCost (js_input example_input) = Fin 480000"
  by (simp_all add: evaluation example_input_def)

lemma example_spec:
  "js_result (spec_compute example_input) =
     \<lparr> totalTurnoverCost = Fin 7500000, totalDisengagementCost = Fin 8640000,
       totalAbsenteeismCost = Fin 480000, totalHiddenLoss = Fin 16140000,
       potentialSavingsMin = Fin 2160000, potentialSavingsMax = Fin 4320000,
       potentialRevenueIncreaseMin = Fin 700000, potentialRevenueIncreaseMax = Fin 2000000 \<rparr>"
  by (simp add: js_result_def spec_compute_def spec_savings_def spec_disengagementCost_def
      spec_absenteeismCost_def example_input_def)



lemma revenue_input_result:
  "potentialRevenueIncreaseMin (calculateROI (js_input revenue_input)) = Fin (1650000 + 1 / 2 ^ 32)"
  by (simp add: evaluation revenue_input_def example_input_def)

lemma large_salary_result:
  "calculateROI (js_input large_salary_input) =
     \<lparr> totalTurnoverCost = Fin 0, totalDisengagementCost = PInf,
       totalAbsenteeismCost = Fin 0, totalHiddenLoss = PInf,
       potentialSavingsMin = NaN, potentialSavingsMax = NaN,
       potentialRevenueIncreaseMin = Fin (3458764513820541 / 2 ^ 58),
       potentialRevenueIncreaseMax = Fin (5044031582654955 / 2 ^ 57) \<rparr>"
  by (simp add: evaluation large_salary_input_def signed_inf_def Math_max_def Math_min_def
      minus_jsnum_def)



lemma valid_examples:
  "valid_input example_input" "valid_input top_score_input" "valid_input zero_salary_input"
  "valid_input revenue_input" "valid_input large_salary_input"
  "valid_input large_salary_top_input" "valid_input tiny_revenue_input"
  by (simp_all add: valid_input_def example_input_def top_score_input_def zero_salary_input_def
      revenue_input_def large_salary_input_def large_salary_top_input_def
      tiny_revenue_input_def)

section \<open>The handler's range checks\<close>

lemma handler_rejects_checked:
  assumes "ToNumber (employeesWhoLeft body) > ToNumber (numEmployees body)
           \<or> ToNumber (engagementScore body) < Fin 1
           \<or> ToNumber (engagementScore body) > Fin 10"
  shows "\<exists>msg. roi_calculator_handler body = Rejected 400 msg"
  using assms by (auto simp add: roi_calculator_handler_def)

section \<open>The claims\<close>

text \<open>
  C1: the claim is that \<open>calculateROI\<close> returns exactly the result of the nine-step algorithm
  over the reals. In double arithmetic it does not; what holds is that it returns the nine
  steps carried out in double arithmetic (steps 2 to 5 as one function of the score, steps
  8 and 9 grouped as the code groups them), for every input, and that on the example input
  of the specification this is the real-valued result.
\<close>

theorem calculateROI_follows_steps:
  "calculateROI data = steps_compute data
   \<and> calculateROI (js_input example_input) = js_result (spec_compute example_input)"
proof (intro conjI)
  show "calculateROI data = steps_compute data"
    by (rule calculateROI_steps)
  show "calculateROI (js_input example_input) = js_result (spec_compute example_input)"
    by (simp only: example_result example_spec)
qed

text \<open>
  The claim as stated fails at a revenue of 75000000 and a score of 10: the code returns
  \<open>1650000 + 2^-32\<close> for the minimum revenue increase, the real algorithm 1650000.
\<close>

theorem calculateROI_not_exact:
  "valid_input revenue_input
   \<and> calculateROI (js_input revenue_input) \<noteq> js_result (spec_compute revenue_input)"
proof -
  have spec: "potentialRevenueIncreaseMin (js_result (spec_compute revenue_input)) = Fin 1650000"
    by (simp add: js_result_def spec_compute_def revenue_input_def example_input_def)
  have "potentialRevenueIncreaseMin (calculateROI (js_input revenue_input))
      \<noteq> potentialRevenueIncreaseMin (js_result (spec_compute revenue_input))"
    unfolding revenue_input_result spec by simp
  then have "calculateROI (js_input revenue_input) \<noteq> js_result (spec_compute revenue_input)"
    by auto
  with valid_examples(4) show ?thesis by simp
qed

text \<open>
  C2: on the example input (100 employees, salary 600000, revenue 50000000, 10 leavers,
  5 extra days, score 6) the turnover cost is 7500000, the disengagement influence factor
  is the double written 0.4, the average daily salary 2400, the absenteeism cost 480000,
  the disengagement cost 8640000 and the hidden loss 16140000; the productivity loss is
  \<open>8160000 + 2^-30\<close>, the double next above 8160000.
\<close>

theorem calculateROI_example:
  "totalTurnoverCost (calculateROI (js_input example_input)) = Fin 7500000
   \<and> disengagementInfluenceFactor (js_input example_input) = round64 0.4
   \<and> avgDailySalary (js_input example_input) = Fin 2400
   \<and> productivityLossCost (js_input example_input) = Fin (8160000 + 1 / 2 ^ 30)
   \<and> absenteeismCost (js_input example_input) = Fin 480000
   \<and> totalDisengagementCost (calculateROI (js_input example_input)) = Fin 8640000
   \<and> totalHiddenLoss (calculateROI (js_input example_input)) = Fin 16140000"
  by (simp add: example_result example_locals roundings)

text \<open>The productivity loss of the example is not 8160000.\<close>

theorem productivityLossCost_example_inexact:
  "productivityLossCost (js_input example_input) \<noteq> Fin 8160000"
  by (simp add: example_locals)

text \<open>
  C3: the claim is that a request with any of the six numeric fields missing is answered
  with status 400 and never reaches \<open>calculateROI\<close>. The handler does not do so: on the
  example body without \<open>engagementScore\<close> every guard is false (a comparison with
  \<open>undefined\<close> is a comparison with \<open>NaN\<close>), \<open>calculateROI\<close> is called, and all the
  figures that depend on the score are \<open>NaN\<close>.
\<close>

theorem missing_engagementScore_reaches_calculateROI:
  "roi_calculator_handler (example_body \<lparr> engagementScore := Undefined \<rparr>)
     = Calculated
         \<lparr> totalTurnoverCost = Fin 7500000, totalDisengagementCost = NaN,
           totalAbsenteeismCost = NaN, totalHiddenLoss = NaN,
           potentialSavingsMin = NaN, potentialSavingsMax = NaN,
           potentialRevenueIncreaseMin = NaN, potentialRevenueIncreaseMax = NaN \<rparr>"
  by (simp add: roi_calculator_handler_def required_field_missing_def example_body_def
      evaluation Math_min_def Math_max_def minus_jsnum_def divide_jsnum_def)

text \<open>
  C4: the claim is that on every valid input the two potential savings are at least 0, and
  in order for a score of at most 8. A product that overflows makes them \<open>NaN\<close>. What holds:
  on every valid input whose disengagement cost is finite, whatever the score, the minimum
  potential saving is at most the maximum one and both are at least 0 (by the relational
  operators of the language, so neither is \<open>NaN\<close>).
\<close>

theorem potentialSavings_ordered_nonneg:
  assumes "valid_input i"
    and "is_finite (totalDisengagementCost (calculateROI (js_input i)))"
  shows "potentialSavingsMin (calculateROI (js_input i))
           \<le> potentialSavingsMax (calculateROI (js_input i))
         \<and> Fin 0 \<le> potentialSavingsMin (calculateROI (js_input i))
         \<and> Fin 0 \<le> potentialSavingsMax (calculateROI (js_input i))"
proof -
  from assms(2) obtain z where "totalDisengagementCost_val (js_input i) = Fin z"
    by (auto simp add: calculateROI_def is_finite_iff)
  from savings_finite [OF assms(1) this] show ?thesis
    by (auto simp add: calculateROI_def)
qed

theorem potentialSavings_ordered_nonneg_witness:
  "valid_input example_input
   \<and> is_finite (totalDisengagementCost (calculateROI (js_input example_input)))
   \<and> potentialSavingsMin (calculateROI (js_input example_input))
       \<le> potentialSavingsMax (calculateROI (js_input example_input))
   \<and> Fin 0 \<le> potentialSavingsMin (calculateROI (js_input example_input))
   \<and> Fin 0 \<le> potentialSavingsMax (calculateROI (js_input example_input))"
proof -
  have f: "is_finite (totalDisengagementCost (calculateROI (js_input example_input)))"
    by (simp add: example_result)
  from potentialSavings_ordered_nonneg [OF valid_examples(1) f] valid_examples(1) f
  show ?thesis by blast
qed

text \<open>
  The claim as stated fails for 4 employees at a salary of \<open>2^1023\<close> and a score of 5: the
  disengagement cost and its recomputations are infinite, and both savings are \<open>NaN\<close>.
\<close>

theorem potentialSavings_NaN_on_overflow:
  "valid_input large_salary_input \<and> engagementScore_r large_salary_input \<le> 8
   \<and> \<not> potentialSavingsMin (calculateROI (js_input large_salary_input))
         \<le> potentialSavingsMax (calculateROI (js_input large_salary_input))
   \<and> \<not> Fin 0 \<le> potentialSavingsMin (calculateROI (js_input large_salary_input))
   \<and> \<not> Fin 0 \<le> potentialSavingsMax (calculateROI (js_input large_salary_input))"
proof -
  have "engagementScore_r large_salary_input \<le> 8"
    by (simp add: large_salary_input_def)
  with valid_examples(5) show ?thesis
    by (simp add: large_salary_result)
qed




text \<open>
  C6: for every valid input the minimum revenue increase is at most the maximum one.
\<close>

theorem potentialRevenueIncrease_ordered:
  assumes "valid_input i"
  shows "potentialRevenueIncreaseMin (calculateROI (js_input i))
           \<le> potentialRevenueIncreaseMax (calculateROI (js_input i))"
  using revenue_ordered [OF assms] by (simp add: calculateROI_def)

theorem potentialRevenueIncrease_ordered_witness:
  "valid_input zero_salary_input
   \<and> potentialRevenueIncreaseMin (calculateROI (js_input zero_salary_input))
       \<le> potentialRevenueIncreaseMax (calculateROI (js_input zero_salary_input))"
  using potentialRevenueIncrease_ordered [OF valid_examples(3)] valid_examples(3)
  by blast

text \<open>
  C7: the hidden loss that \<open>calculateROI\<close> returns is the sum, in the arithmetic of the
  language, of the turnover cost and the disengagement cost it returns; this holds for
  every input, valid or not.
\<close>

theorem totalHiddenLoss_is_sum:
  "totalHiddenLoss (calculateROI data)
     = totalTurnoverCost (calculateROI data) + totalDisengagementCost (calculateROI data)"
  by (simp add: calculateROI_def totalHiddenLoss_val_def)




text \<open>
  C9: the two copies of \<open>calculateROI\<close> in backend.js return, for every input, what
  the one of roiCalculator.js returns.
\<close>

theorem calculateROI_copies_equal:
  "calculateROI_backend_199 data = calculateROI data
   \<and> calculateROI_backend_817 data = calculateROI data"
  by (simp add: calculateROI_backend_199_def calculateROI_backend_817_def calculateROI_def
      Let_def calculateROI_locals constants_defs)

text \<open>
  C10: a request whose \<open>numEmployees\<close>, \<open>avgAnnualSalary\<close> or \<open>annualRevenue\<close> is 0 is
  answered with status 400 and the message of the required-field guard, before
  \<open>calculateROI\<close> is called; and that guard does not read \<open>employeesWhoLeft\<close>,
  \<open>avgExtraAbsenteeismDaysPerEmployee\<close> or \<open>engagementScore\<close>.
\<close>

theorem zero_fields_rejected:
  "(numEmployees body = Number (Fin 0) \<or> avgAnnualSalary body = Number (Fin 0)
      \<or> annualRevenue body = Number (Fin 0)
     \<longrightarrow> roi_calculator_handler body = Rejected 400 ''All required fields must be provided'')
   \<and> required_field_missing
        (body \<lparr> employeesWhoLeft := x, avgExtraAbsenteeismDaysPerEmployee := y,
                engagementScore := z \<rparr>)
       = required_field_missing body"
  by (auto simp add: roi_calculator_handler_def required_field_missing_def)

theorem zero_fields_rejected_witness:
  "valid_input zero_salary_input
   \<and> avgAnnualSalary
        (request_body (js_input zero_salary_input) (Some ''hr@example.com'') (Some ''9876543210''))
       = Number (Fin 0)
   \<and> roi_calculator_handler
        (request_body (js_input zero_salary_input) (Some ''hr@example.com'') (Some ''9876543210''))
       = Rejected 400 ''All required fields must be provided''
   \<and> required_field_missing
        (example_body \<lparr> employeesWhoLeft := Undefined,
           avgExtraAbsenteeismDaysPerEmployee := Undefined, engagementScore := Undefined \<rparr>)
       = False"
proof -
  let ?b = "request_body (js_input zero_salary_input) (Some ''hr@example.com'') (Some ''9876543210'')"
  have v: "valid_input zero_salary_input"
    by (simp add: valid_input_def zero_salary_input_def example_input_def)
  have z: "avgAnnualSalary ?b = Number (Fin 0)"
    by (simp add: request_body_def zero_salary_input_def)
  have m: "required_field_missing example_body = False"
    by (simp add: required_field_missing_def example_body_def)
  from zero_fields_rejected [of ?b] z
  have "roi_calculator_handler ?b = Rejected 400 ''All required fields must be provided''"
    by blast
  with v z m zero_fields_rejected [of example_body Undefined Undefined Undefined]
  show ?thesis by simp
qed

end
